theory Spec2Isabelle
  imports Main
begin

section \<open>Python values, exceptions and the runtime\<close>

text \<open>
  The fragment of Python values that the program handles: \<open>None\<close>, booleans, integers,
  floats, strings, lists, string-keyed dictionaries (in insertion order) and sets. The type
  parameter \<open>'f\<close> stands for Python's \<open>float\<close>; no operation of the program computes with
  floats, they are only parsed and passed on.
\<close>

datatype 'f pyval =
    PNone
  | PBool bool
  | PInt int
  | PFloat 'f
  | PStr string
  | PList "'f pyval list"
  | PDict "(string \<times> 'f pyval) list"
  | PSet "'f pyval list"

type_synonym 'f pydict = "(string \<times> 'f pyval) list"

text \<open>
  Instances of Python's \<open>Exception\<close> class, each with the text that \<open>str(e)\<close> gives.
  \<open>ProviderError\<close> is any exception raised by the provider client or the network below it.
\<close>

datatype exn =
    JSONDecodeError string
  | TypeError string
  | ValueError string
  | IndexError string
  | AttributeError string
  | ProviderError string

fun exn_str :: "exn \<Rightarrow> string" where
  "exn_str (JSONDecodeError m) = m"
| "exn_str (TypeError m) = m"
| "exn_str (ValueError m) = m"
| "exn_str (IndexError m) = m"
| "exn_str (AttributeError m) = m"
| "exn_str (ProviderError m) = m"

text \<open>The provider client object built by \<open>OpenAI(api_key=...)\<close>.\<close>

datatype client = OpenAI string

text \<open>
  The keyword arguments of one \<open>client.chat.completions.create\<close> call; a message is a
  pair of its role and its content.
\<close>

record 'f chat_request =
  req_model :: string
  req_messages :: "(string \<times> string) list"
  req_temperature :: 'f
  req_max_tokens :: int

text \<open>
  A provider response, reduced to what the program reads of it: for each entry of
  \<open>response.choices\<close>, its \<open>message.content\<close> (a string or \<open>None\<close>).
\<close>

datatype response = Response (choices: "string option list")

text \<open>
  Everything the program takes from outside itself: the process environment read by
  \<open>os.getenv\<close>, whether the \<open>openai\<close> import succeeded, the built-in conversions \<open>float\<close> and
  \<open>int\<close> on strings, the provider call, \<open>json.loads\<close> on a string, and the text that
  \<open>json.dumps(v, indent=2)\<close> produces for a serialisable value.
\<close>

record 'f runtime =
  environ :: "string \<Rightarrow> string option"
  OPENAI_AVAILABLE :: bool
  float_of_str :: "string \<Rightarrow> exn + 'f"
  int_of_str :: "string \<Rightarrow> exn + int"
  create :: "client \<Rightarrow> 'f chat_request \<Rightarrow> exn + response"
  json_loads :: "string \<Rightarrow> exn + 'f pyval"
  json_encode :: "'f pyval \<Rightarrow> string"

text \<open>\<open>os.getenv(key, default)\<close>.\<close>

definition getenv :: "'f runtime \<Rightarrow> string \<Rightarrow> string \<Rightarrow> string" where
  "getenv rt key dflt = (case environ rt key of None \<Rightarrow> dflt | Some v \<Rightarrow> v)"

text \<open>Truth value of an optional string: \<open>None\<close> and the empty string are false.\<close>

fun truthy :: "string option \<Rightarrow> bool" where
  "truthy None = False"
| "truthy (Some k) = (k \<noteq> [])"

text \<open>Python's \<open>a or b\<close> on optional strings.\<close>

definition py_or :: "string option \<Rightarrow> string option \<Rightarrow> string option" where
  "py_or a b = (if truthy a then a else b)"

text \<open>
  \<open>json.loads(result)\<close>, where \<open>result\<close> may be \<open>None\<close>: the library rejects anything that is
  not text with a \<open>TypeError\<close>.
\<close>

definition py_json_loads :: "'f runtime \<Rightarrow> string option \<Rightarrow> exn + 'f pyval" where
  "py_json_loads rt result =
     (case result of
        None \<Rightarrow> Inl (TypeError ''the JSON object must be str, bytes or bytearray, not NoneType'')
      | Some t \<Rightarrow> json_loads rt t)"

text \<open>
  \<open>json.dumps\<close> raises \<open>TypeError\<close> on a value it cannot serialise; of the values modelled
  here those are exactly the ones containing a set.
\<close>

fun json_serializable :: "'f pyval \<Rightarrow> bool"
  and json_serializable_list :: "'f pyval list \<Rightarrow> bool"
  and json_serializable_items :: "(string \<times> 'f pyval) list \<Rightarrow> bool" where
  "json_serializable (PList xs) = json_serializable_list xs"
| "json_serializable (PDict kvs) = json_serializable_items kvs"
| "json_serializable (PSet xs) = False"
| "json_serializable PNone = True"
| "json_serializable (PBool b) = True"
| "json_serializable (PInt n) = True"
| "json_serializable (PFloat x) = True"
| "json_serializable (PStr t) = True"
| "json_serializable_list [] = True"
| "json_serializable_list (x # xs) = (json_serializable x \<and> json_serializable_list xs)"
| "json_serializable_items [] = True"
| "json_serializable_items ((k, v) # kvs) = (json_serializable v \<and> json_serializable_items kvs)"

definition json_dumps :: "'f runtime \<Rightarrow> 'f pyval \<Rightarrow> exn + string" where
  "json_dumps rt v =
     (if json_serializable v then Inr (json_encode rt v)
      else Inl (TypeError ''Object of type set is not JSON serializable''))"

section \<open>The task facade (genai_system_engineering.py)\<close>

record 'f facade =
  api_key :: "string option"
  model :: string
  temperature :: 'f
  client :: "client option"
  enabled :: bool

text \<open>
  \<open>GenAISystemEngineer.__init__\<close>: the credential is the argument or, when that is \<open>None\<close>
  or empty, the environment's; \<open>float\<close> may raise on the temperature setting.
\<close>

definition GenAISystemEngineer :: "'f runtime \<Rightarrow> string option \<Rightarrow> exn + 'f facade" where
  "GenAISystemEngineer rt api_key_arg =
     (let key = py_or api_key_arg (environ rt ''OPENAI_API_KEY'');
          m = getenv rt ''OPENAI_MODEL'' ''gpt-4''
      in case float_of_str rt (getenv rt ''OPENAI_TEMPERATURE'' ''0.7'') of
           Inl e \<Rightarrow> Inl e
         | Inr t \<Rightarrow>
             (case key of
                Some k \<Rightarrow>
                  if OPENAI_AVAILABLE rt \<and> truthy key
                  then Inr \<lparr>api_key = key, model = m, temperature = t,
                            client = Some (OpenAI k), enabled = True\<rparr>
                  else Inr \<lparr>api_key = key, model = m, temperature = t,
                            client = None, enabled = False\<rparr>
              | None \<Rightarrow>
                  Inr \<lparr>api_key = key, model = m, temperature = t,
                       client = None, enabled = False\<rparr>))"

definition create_genai_engineer :: "'f runtime \<Rightarrow> string option \<Rightarrow> exn + 'f facade" where
  "create_genai_engineer rt api_key_arg = GenAISystemEngineer rt api_key_arg"

definition is_enabled :: "'f facade \<Rightarrow> bool" where
  "is_enabled f = enabled f"

text \<open>
  What a task method can be observed to do besides returning: it is entered, and it may
  send a request to the provider. A method runs on the facade object and the trace so far,
  and returns both with its outcome.
\<close>

datatype task_method =
  AnalyzeRequirements | GenerateDesign | AssessRisks | GenerateTestCases | OptimizeSystem

datatype 'f event = Enter task_method | Send client "'f chat_request"

record 'f fstate =
  self :: "'f facade"
  trace :: "'f event list"

definition entered :: "task_method \<Rightarrow> 'f fstate \<Rightarrow> 'f fstate" where
  "entered m s = s\<lparr>trace := trace s @ [Enter m]\<rparr>"

definition disabled_result :: "'f pydict" where
  "disabled_result =
     [(''status'', PStr ''disabled''),
      (''message'', PStr ''GenAI is not configured. Please set OPENAI_API_KEY.'')]"

definition error_result :: "string \<Rightarrow> exn \<Rightarrow> 'f pydict" where
  "error_result prefix e =
     [(''status'', PStr ''error''), (''message'', PStr (prefix @ exn_str e))]"

text \<open>A string or \<open>None\<close> as a dictionary value, and as an f-string field.\<close>

fun opt_val :: "string option \<Rightarrow> 'f pyval" where
  "opt_val None = PNone"
| "opt_val (Some t) = PStr t"

fun format_tag :: "string option \<Rightarrow> string" where
  "format_tag None = ''None''"
| "format_tag (Some t) = t"

text \<open>
  The call \<open>self.client.chat.completions.create(model=..., messages=..., temperature=...,
  max_tokens=int(os.getenv("GENAI_MAX_TOKENS", "2000")))\<close>: the attribute lookup on the
  client comes first, then the arguments, then the call itself.
\<close>

definition chat_request_of :: "'f facade \<Rightarrow> string \<Rightarrow> string \<Rightarrow> int \<Rightarrow> 'f chat_request" where
  "chat_request_of f system_content prompt n =
     \<lparr>req_model = model f,
      req_messages = [(''system'', system_content), (''user'', prompt)],
      req_temperature = temperature f,
      req_max_tokens = n\<rparr>"

definition chat_completions_create ::
  "'f runtime \<Rightarrow> string \<Rightarrow> string \<Rightarrow> 'f fstate \<Rightarrow> (exn + response) \<times> 'f fstate" where
  "chat_completions_create rt system_content prompt s =
     (case client (self s) of
        None \<Rightarrow> (Inl (AttributeError ('''NoneType' object has no attribute 'chat'' @ [CHR 0x27])), s)
      | Some c \<Rightarrow>
          (case int_of_str rt (getenv rt ''GENAI_MAX_TOKENS'' ''2000'') of
             Inl e \<Rightarrow> (Inl e, s)
           | Inr n \<Rightarrow>
               (let req = chat_request_of (self s) system_content prompt n
                in (create rt c req, s\<lparr>trace := trace s @ [Send c req]\<rparr>))))"

text \<open>\<open>response.choices[0].message.content\<close>.\<close>

fun first_content :: "response \<Rightarrow> exn + string option" where
  "first_content (Response []) = Inl (IndexError ''list index out of range'')"
| "first_content (Response (c # cs)) = Inr c"

subsection \<open>Prompt templates\<close>

definition analysis_prompt :: "string \<Rightarrow> string" where
  "analysis_prompt requirements_text = concat
      [''\<newline>'',
       ''        As a system engineering expert, analyze the following requirements:\<newline>'',
       ''        \<newline>'',
       ''        '',
       requirements_text,
       ''\<newline>'',
       ''        \<newline>'',
       ''        Provide:\<newline>'',
       ''        1. Clarity assessment (are requirements clear and unambiguous?)\<newline>'',
       ''        2. Completeness check (are there any gaps?)\<newline>'',
       ''        3. Testability evaluation (can these be tested?)\<newline>'',
       ''        4. Potential conflicts or contradictions\<newline>'',
       ''        5. Suggestions for improvement\<newline>'',
       ''        \<newline>'',
       ''        Format your response as JSON with keys: clarity, completeness, testability, conflicts, suggestions\<newline>'',
       ''        '']"

definition design_prompt :: "string \<Rightarrow> string option \<Rightarrow> string" where
  "design_prompt specifications design_type = concat
      [''\<newline>'',
       ''        Based on the following specifications, generate a '',
       format_tag design_type,
       '' design:\<newline>'',
       ''        \<newline>'',
       ''        '',
       specifications,
       ''\<newline>'',
       ''        \<newline>'',
       ''        Provide:\<newline>'',
       ''        1. Overall design approach\<newline>'',
       ''        2. Key components and their responsibilities\<newline>'',
       ''        3. Interface definitions\<newline>'',
       ''        4. Data flow\<newline>'',
       ''        5. Technology recommendations\<newline>'',
       ''        \<newline>'',
       ''        Format as a detailed design document.\<newline>'',
       ''        '']"

definition risk_prompt :: "string \<Rightarrow> string" where
  "risk_prompt system_description = concat
      [''\<newline>'',
       ''        Perform a risk assessment for the following system:\<newline>'',
       ''        \<newline>'',
       ''        '',
       system_description,
       ''\<newline>'',
       ''        \<newline>'',
       ''        Identify:\<newline>'',
       ''        1. Technical risks\<newline>'',
       ''        2. Security risks\<newline>'',
       ''        3. Performance risks\<newline>'',
       ''        4. Operational risks\<newline>'',
       ''        5. Mitigation strategies for each risk\<newline>'',
       ''        \<newline>'',
       ''        Rate each risk as: Critical, High, Medium, or Low\<newline>'',
       ''        '']"

definition test_case_prompt :: "string \<Rightarrow> string option \<Rightarrow> string" where
  "test_case_prompt requirements test_type = concat
      [''\<newline>'',
       ''        Generate '',
       format_tag test_type,
       '' test cases for the following requirements:\<newline>'',
       ''        \<newline>'',
       ''        '',
       requirements,
       ''\<newline>'',
       ''        \<newline>'',
       ''        For each test case provide:\<newline>'',
       ''        1. Test ID\<newline>'',
       ''        2. Test description\<newline>'',
       ''        3. Preconditions\<newline>'',
       ''        4. Test steps\<newline>'',
       ''        5. Expected results\<newline>'',
       ''        6. Priority (High/Medium/Low)\<newline>'',
       ''        \<newline>'',
       ''        Format as a structured list.\<newline>'',
       ''        '']"

definition optimization_prompt :: "string \<Rightarrow> string option \<Rightarrow> string" where
  "optimization_prompt config_str optimization_goal = concat
      [''\<newline>'',
       ''        Analyze this system configuration and suggest optimizations for '',
       format_tag optimization_goal,
       '':\<newline>'',
       ''        \<newline>'',
       ''        '',
       config_str,
       ''\<newline>'',
       ''        \<newline>'',
       ''        Provide:\<newline>'',
       ''        1. Current bottlenecks or inefficiencies\<newline>'',
       ''        2. Specific optimization recommendations\<newline>'',
       ''        3. Expected impact of each recommendation\<newline>'',
       ''        4. Implementation complexity (Easy/Medium/Hard)\<newline>'',
       ''        5. Potential trade-offs\<newline>'',
       ''        '']"

subsection \<open>The five task methods\<close>

definition analyze_requirements ::
  "'f runtime \<Rightarrow> string \<Rightarrow> 'f fstate \<Rightarrow> (exn + 'f pydict) \<times> 'f fstate" where
  "analyze_requirements rt requirements_text s0 =
     (let s = entered AnalyzeRequirements s0 in
      if \<not> is_enabled (self s) then (Inr disabled_result, s)
      else
        (let prompt = analysis_prompt requirements_text in
         case chat_completions_create rt ''You are a system engineering expert.'' prompt s of
           (Inl e, s') \<Rightarrow> (Inr (error_result ''Error during analysis: '' e), s')
         | (Inr response, s') \<Rightarrow>
             (case first_content response of
                Inl e \<Rightarrow> (Inr (error_result ''Error during analysis: '' e), s')
              | Inr result \<Rightarrow>
                  (case py_json_loads rt result of
                     Inr parsed_result \<Rightarrow>
                       (Inr [(''status'', PStr ''success''),
                             (''analysis'', parsed_result),
                             (''raw_response'', opt_val result)], s')
                   | Inl (JSONDecodeError m) \<Rightarrow>
                       (Inr [(''status'', PStr ''success''),
                             (''analysis'', opt_val result),
                             (''raw_response'', opt_val result)], s')
                   | Inl e \<Rightarrow> (Inr (error_result ''Error during analysis: '' e), s')))))"

definition generate_design ::
  "'f runtime \<Rightarrow> string \<Rightarrow> string option \<Rightarrow> 'f fstate \<Rightarrow> (exn + 'f pydict) \<times> 'f fstate" where
  "generate_design rt specifications design_type s0 =
     (let s = entered GenerateDesign s0 in
      if \<not> is_enabled (self s) then (Inr disabled_result, s)
      else
        (let prompt = design_prompt specifications design_type in
         case chat_completions_create rt ''You are an expert system designer.'' prompt s of
           (Inl e, s') \<Rightarrow> (Inr (error_result ''Error during design generation: '' e), s')
         | (Inr response, s') \<Rightarrow>
             (case first_content response of
                Inl e \<Rightarrow> (Inr (error_result ''Error during design generation: '' e), s')
              | Inr content \<Rightarrow>
                  (Inr [(''status'', PStr ''success''),
                        (''design'', opt_val content),
                        (''design_type'', opt_val design_type)], s'))))"

definition assess_risks ::
  "'f runtime \<Rightarrow> string \<Rightarrow> 'f fstate \<Rightarrow> (exn + 'f pydict) \<times> 'f fstate" where
  "assess_risks rt system_description s0 =
     (let s = entered AssessRisks s0 in
      if \<not> is_enabled (self s) then (Inr disabled_result, s)
      else
        (let prompt = risk_prompt system_description in
         case chat_completions_create rt ''You are a risk assessment expert.'' prompt s of
           (Inl e, s') \<Rightarrow> (Inr (error_result ''Error during risk assessment: '' e), s')
         | (Inr response, s') \<Rightarrow>
             (case first_content response of
                Inl e \<Rightarrow> (Inr (error_result ''Error during risk assessment: '' e), s')
              | Inr content \<Rightarrow>
                  (Inr [(''status'', PStr ''success''),
                        (''assessment'', opt_val content)], s'))))"

definition generate_test_cases ::
  "'f runtime \<Rightarrow> string \<Rightarrow> string option \<Rightarrow> 'f fstate \<Rightarrow> (exn + 'f pydict) \<times> 'f fstate" where
  "generate_test_cases rt requirements test_type s0 =
     (let s = entered GenerateTestCases s0 in
      if \<not> is_enabled (self s) then (Inr disabled_result, s)
      else
        (let prompt = test_case_prompt requirements test_type in
         case chat_completions_create rt ''You are a test engineering expert.'' prompt s of
           (Inl e, s') \<Rightarrow> (Inr (error_result ''Error during test case generation: '' e), s')
         | (Inr response, s') \<Rightarrow>
             (case first_content response of
                Inl e \<Rightarrow> (Inr (error_result ''Error during test case generation: '' e), s')
              | Inr content \<Rightarrow>
                  (Inr [(''status'', PStr ''success''),
                        (''test_cases'', opt_val content),
                        (''test_type'', opt_val test_type)], s'))))"

text \<open>
  In \<open>optimize_system\<close> the configuration is serialised before the \<open>try\<close> block is
  entered, so an exception of \<open>json.dumps\<close> leaves the method.
\<close>

definition optimize_system ::
  "'f runtime \<Rightarrow> 'f pydict \<Rightarrow> string option \<Rightarrow> 'f fstate \<Rightarrow> (exn + 'f pydict) \<times> 'f fstate" where
  "optimize_system rt system_config optimization_goal s0 =
     (let s = entered OptimizeSystem s0 in
      if \<not> is_enabled (self s) then (Inr disabled_result, s)
      else
        (case json_dumps rt (PDict system_config) of
           Inl e \<Rightarrow> (Inl e, s)
         | Inr config_str \<Rightarrow>
             (let prompt = optimization_prompt config_str optimization_goal in
              case chat_completions_create rt ''You are a system optimization expert.'' prompt s of
                (Inl e, s') \<Rightarrow> (Inr (error_result ''Error during optimization: '' e), s')
              | (Inr response, s') \<Rightarrow>
                  (case first_content response of
                     Inl e \<Rightarrow> (Inr (error_result ''Error during optimization: '' e), s')
                   | Inr content \<Rightarrow>
                       (Inr [(''status'', PStr ''success''),
                             (''optimizations'', opt_val content),
                             (''optimization_goal'', opt_val optimization_goal)], s')))))"

text \<open>
  The tag parameters have defaults: a call that leaves the tag out is the call with the
  default value.
\<close>

definition generate_design_default ::
  "'f runtime \<Rightarrow> string \<Rightarrow> 'f fstate \<Rightarrow> (exn + 'f pydict) \<times> 'f fstate" where
  "generate_design_default rt specifications s = generate_design rt specifications (Some ''architecture'') s"

definition generate_test_cases_default ::
  "'f runtime \<Rightarrow> string \<Rightarrow> 'f fstate \<Rightarrow> (exn + 'f pydict) \<times> 'f fstate" where
  "generate_test_cases_default rt requirements s = generate_test_cases rt requirements (Some ''functional'') s"

definition optimize_system_default ::
  "'f runtime \<Rightarrow> 'f pydict \<Rightarrow> 'f fstate \<Rightarrow> (exn + 'f pydict) \<times> 'f fstate" where
  "optimize_system_default rt system_config s = optimize_system rt system_config (Some ''performance'') s"

section \<open>The HTTP adapter (app.py)\<close>

record activity =
  description :: string
  schedule :: string
  max_participants :: int
  participants :: "string list"

text \<open>
  The module-level state of the adapter: the import flag, the facade instance (or \<open>None\<close>),
  the in-memory activity store, and the trace of what the facade has been seen to do.
\<close>

record 'f app =
  GENAI_AVAILABLE :: bool
  genai_engineer :: "'f facade option"
  activities :: "string \<Rightarrow> activity option"
  events :: "'f event list"

text \<open>
  A handler returns a body, raises \<open>HTTPException(status_code, detail)\<close>, or lets another
  exception escape, which the framework answers with status 500.
\<close>

datatype http_error = HTTPException nat string | Unhandled exn

fun status_code :: "http_error + 'a \<Rightarrow> nat" where
  "status_code (Inr body) = 200"
| "status_code (Inl (HTTPException code detail)) = code"
| "status_code (Inl (Unhandled e)) = 500"

definition seed_activities :: "string \<Rightarrow> activity option" where
  "seed_activities =
     [''Chess Club'' \<mapsto>
        \<lparr>description = ''Learn strategies and compete in chess tournaments'',
         schedule = ''Fridays, 3:30 PM - 5:00 PM'',
         max_participants = 12,
         participants = [''michael@mergington.edu'', ''daniel@mergington.edu'']\<rparr>,
      ''Programming Class'' \<mapsto>
        \<lparr>description = ''Learn programming fundamentals and build software projects'',
         schedule = ''Tuesdays and Thursdays, 3:30 PM - 4:30 PM'',
         max_participants = 20,
         participants = [''emma@mergington.edu'', ''sophia@mergington.edu'']\<rparr>,
      ''Gym Class'' \<mapsto>
        \<lparr>description = ''Physical education and sports activities'',
         schedule = ''Mondays, Wednesdays, Fridays, 2:00 PM - 3:00 PM'',
         max_participants = 30,
         participants = [''john@mergington.edu'', ''olivia@mergington.edu'']\<rparr>]"

text \<open>
  Module initialisation: \<open>import_ok\<close> says whether importing the facade module succeeded;
  the facade is then built once, with no key argument.
\<close>

definition startup :: "'f runtime \<Rightarrow> bool \<Rightarrow> exn + 'f app" where
  "startup rt import_ok =
     (if import_ok then
        (case create_genai_engineer rt None of
           Inl e \<Rightarrow> Inl e
         | Inr f \<Rightarrow>
             Inr \<lparr>GENAI_AVAILABLE = True, genai_engineer = Some f,
                  activities = seed_activities, events = []\<rparr>)
      else
        Inr \<lparr>GENAI_AVAILABLE = False, genai_engineer = None,
             activities = seed_activities, events = []\<rparr>)"

definition get_activities ::
  "'f app \<Rightarrow> (http_error + (string \<Rightarrow> activity option)) \<times> 'f app" where
  "get_activities a = (Inr (activities a), a)"

definition signup_for_activity ::
  "string \<Rightarrow> string \<Rightarrow> 'f app \<Rightarrow> (http_error + 'f pydict) \<times> 'f app" where
  "signup_for_activity activity_name email a =
     (case activities a activity_name of
        None \<Rightarrow> (Inl (HTTPException 404 ''Activity not found''), a)
      | Some activity \<Rightarrow>
          (Inr [(''message'', PStr (''Signed up '' @ email @ '' for '' @ activity_name))],
           a\<lparr>activities := (activities a)
                (activity_name \<mapsto>
                   activity\<lparr>participants := participants activity @ [email]\<rparr>)\<rparr>))"

definition genai_status :: "'f app \<Rightarrow> (http_error + 'f pydict) \<times> 'f app" where
  "genai_status a =
     (if \<not> GENAI_AVAILABLE a then
        (Inr [(''enabled'', PBool False),
              (''message'', PStr ''GenAI module is not available. Install required dependencies.'')],
         a)
      else
        (case genai_engineer a of
           Some f \<Rightarrow>
             if is_enabled f then
               (Inr [(''enabled'', PBool True),
                     (''message'', PStr ''GenAI System Engineering is ready''),
                     (''model'', PStr (model f))],
                a)
             else
               (Inr [(''enabled'', PBool False),
                     (''message'',
                      PStr ''GenAI is not configured. Please set OPENAI_API_KEY environment variable.'')],
                a)
         | None \<Rightarrow>
             (Inr [(''enabled'', PBool False),
                   (''message'',
                    PStr ''GenAI is not configured. Please set OPENAI_API_KEY environment variable.'')],
              a)))"

record RequirementsAnalysisRequest =
  requirements_text :: string

record DesignGenerationRequest =
  specifications :: string
  design_type :: "string option"

record RiskAssessmentRequest =
  system_description :: string

record TestCaseGenerationRequest =
  requirements :: string
  test_type :: "string option"

record 'f OptimizationRequest =
  system_config :: "'f pydict"
  optimization_goal :: "string option"

text \<open>
  The five task handlers. In \<open>app.py\<close> they carry the names of the facade methods they
  call; here they are prefixed with \<open>app_\<close>. A handler receives the request object that
  the framework has already validated against its declared shape.
\<close>

definition unavailable :: "'f app \<Rightarrow> (http_error + 'f pydict) \<times> 'f app" where
  "unavailable a = (Inl (HTTPException 503 ''GenAI functionality is not available''), a)"

text \<open>
  \<open>result = genai_engineer.method(...); return result\<close>: the facade object and the trace are
  those the method leaves; an exception of the method is not caught by the handler.
\<close>

definition relay ::
  "'f app \<Rightarrow> (exn + 'f pydict) \<times> 'f fstate \<Rightarrow> (http_error + 'f pydict) \<times> 'f app" where
  "relay a out =
     (case out of
        (r, s') \<Rightarrow>
          ((case r of Inl e \<Rightarrow> Inl (Unhandled e) | Inr result \<Rightarrow> Inr result),
           a\<lparr>genai_engineer := Some (self s'), events := trace s'\<rparr>))"

definition app_analyze_requirements ::
  "'f runtime \<Rightarrow> RequirementsAnalysisRequest \<Rightarrow> 'f app \<Rightarrow> (http_error + 'f pydict) \<times> 'f app" where
  "app_analyze_requirements rt request a =
     (if \<not> GENAI_AVAILABLE a then unavailable a
      else
        (case genai_engineer a of
           None \<Rightarrow> unavailable a
         | Some f \<Rightarrow>
             relay a (analyze_requirements rt (requirements_text request)
                        \<lparr>self = f, trace = events a\<rparr>)))"

definition app_generate_design ::
  "'f runtime \<Rightarrow> DesignGenerationRequest \<Rightarrow> 'f app \<Rightarrow> (http_error + 'f pydict) \<times> 'f app" where
  "app_generate_design rt request a =
     (if \<not> GENAI_AVAILABLE a then unavailable a
      else
        (case genai_engineer a of
           None \<Rightarrow> unavailable a
         | Some f \<Rightarrow>
             relay a (generate_design rt (specifications request) (design_type request)
                        \<lparr>self = f, trace = events a\<rparr>)))"

definition app_assess_risks ::
  "'f runtime \<Rightarrow> RiskAssessmentRequest \<Rightarrow> 'f app \<Rightarrow> (http_error + 'f pydict) \<times> 'f app" where
  "app_assess_risks rt request a =
     (if \<not> GENAI_AVAILABLE a then unavailable a
      else
        (case genai_engineer a of
           None \<Rightarrow> unavailable a
         | Some f \<Rightarrow>
             relay a (assess_risks rt (system_description request)
                        \<lparr>self = f, trace = events a\<rparr>)))"

definition app_generate_test_cases ::
  "'f runtime \<Rightarrow> TestCaseGenerationRequest \<Rightarrow> 'f app \<Rightarrow> (http_error + 'f pydict) \<times> 'f app" where
  "app_generate_test_cases rt request a =
     (if \<not> GENAI_AVAILABLE a then unavailable a
      else
        (case genai_engineer a of
           None \<Rightarrow> unavailable a
         | Some f \<Rightarrow>
             relay a (generate_test_cases rt (requirements request) (test_type request)
                        \<lparr>self = f, trace = events a\<rparr>)))"

definition app_optimize_system ::
  "'f runtime \<Rightarrow> 'f OptimizationRequest \<Rightarrow> 'f app \<Rightarrow> (http_error + 'f pydict) \<times> 'f app" where
  "app_optimize_system rt request a =
     (if \<not> GENAI_AVAILABLE a then unavailable a
      else
        (case genai_engineer a of
           None \<Rightarrow> unavailable a
         | Some f \<Rightarrow>
             relay a (optimize_system rt (system_config request) (optimization_goal request)
                        \<lparr>self = f, trace = events a\<rparr>)))"

section \<open>Properties named by the specification\<close>

text \<open>
  The shape invariant of a task result: the status is one of the three values; a success
  carries no \<open>message\<close>; a disabled or error result carries no payload field.
\<close>

definition payload_fields :: "string list" where
  "payload_fields =
     [''analysis'', ''raw_response'', ''design'', ''design_type'', ''assessment'',
      ''test_cases'', ''test_type'', ''optimizations'', ''optimization_goal'']"

definition well_shaped :: "'f pydict \<Rightarrow> bool" where
  "well_shaped r =
     (case map_of r ''status'' of
        Some (PStr st) \<Rightarrow>
          if st = ''success'' then ''message'' \<notin> fst ` set r
          else (st = ''disabled'' \<or> st = ''error'') \<and> fst ` set r \<inter> set payload_fields = {}
      | _ \<Rightarrow> False)"

text \<open>The token budgets of the provider requests recorded in a trace.\<close>

fun sent_max_tokens :: "'f event list \<Rightarrow> int list" where
  "sent_max_tokens [] = []"
| "sent_max_tokens (Enter m # es) = sent_max_tokens es"
| "sent_max_tokens (Send c req # es) = req_max_tokens req # sent_max_tokens es"

text \<open>Whether the status endpoint sees an enabled facade.\<close>

definition reports_enabled :: "'f app \<Rightarrow> bool" where
  "reports_enabled a =
     (GENAI_AVAILABLE a \<and> (case genai_engineer a of None \<Rightarrow> False | Some f \<Rightarrow> is_enabled f))"



section \<open>A concrete runtime for evaluation\<close>

text \<open>
  A float is written as its \<open>repr\<close>. The conversions below agree with Python on the strings
  they accept (plain decimal digits; the default temperature) and reject every other
  string. \<open>test_loads\<close> knows one JSON text, raises the interpreter's \<open>ValueError\<close> on the
  integer literal of 5000 digits, which is over the limit of 4300 digits for converting a
  string to an integer, and rejects the rest as malformed; \<open>test_encode\<close> gives the text of
  the empty configuration.
\<close>

definition test_int :: "string \<Rightarrow> exn + int" where
  "test_int t =
     (if t \<noteq> [] \<and> list_all (\<lambda>c. c \<in> set ''0123456789'') t
      then Inr (foldl (\<lambda>n c. 10 * n + (of_char c - 48)) 0 t)
      else Inl (ValueError (''invalid literal for int() with base 10: '' @ [CHR 0x27] @ t @ [CHR 0x27])))"

definition test_float :: "string \<Rightarrow> exn + string" where
  "test_float t =
     (if t = ''0.7'' then Inr ''0.7''
      else Inl (ValueError (''could not convert string to float: '' @ [CHR 0x27] @ t @ [CHR 0x27])))"

definition test_loads :: "string \<Rightarrow> exn + string pyval" where
  "test_loads t =
     (if length t = 5000 \<and> t = replicate 5000 (CHR ''1'') then
        Inl (ValueError (''Exceeds the limit (4300 digits) for integer string conversion: '' @
                         ''value has 5000 digits; use sys.set_int_max_str_digits() '' @
                         ''to increase the limit''))
      else if t = ''[1, 2]'' then Inr (PList [PInt 1, PInt 2])
      else Inl (JSONDecodeError ''Expecting value: line 1 column 1 (char 0)''))"

definition test_encode :: "string pyval \<Rightarrow> string" where
  "test_encode v = ''{}''"

definition test_runtime :: "(string \<Rightarrow> string option) \<Rightarrow> (exn + response) \<Rightarrow> string runtime" where
  "test_runtime env reply =
     \<lparr>environ = env, OPENAI_AVAILABLE = True, float_of_str = test_float,
      int_of_str = test_int, create = (\<lambda>c req. reply), json_loads = test_loads,
      json_encode = test_encode\<rparr>"

definition test_facade :: "string facade" where
  "test_facade =
     \<lparr>api_key = Some ''sk-test'', model = ''gpt-4'', temperature = ''0.7'',
      client = Some (OpenAI ''sk-test''), enabled = True\<rparr>"

definition test_disabled_facade :: "string facade" where
  "test_disabled_facade =
     \<lparr>api_key = None, model = ''gpt-4'', temperature = ''0.7'',
      client = None, enabled = False\<rparr>"

text \<open>
  Three states of the adapter: the facade module missing, the facade present without a
  credential, and the facade present and enabled.
\<close>

definition test_app_missing :: "string app" where
  "test_app_missing =
     \<lparr>GENAI_AVAILABLE = False, genai_engineer = None,
      activities = seed_activities, events = []\<rparr>"

definition test_app_disabled :: "string app" where
  "test_app_disabled =
     \<lparr>GENAI_AVAILABLE = True, genai_engineer = Some test_disabled_facade,
      activities = seed_activities, events = []\<rparr>"

definition test_app_enabled :: "string app" where
  "test_app_enabled =
     \<lparr>GENAI_AVAILABLE = True, genai_engineer = Some test_facade,
      activities = seed_activities, events = []\<rparr>"

section \<open>Evaluation of the concrete runtime\<close>

lemma test_int_2000: "test_int ''2000'' = Inr 2000"
  by (simp add: test_int_def)

lemma test_int_50: "test_int ''50'' = Inr 50"
  by (simp add: test_int_def)

lemma test_facade_constructed:
  "GenAISystemEngineer (test_runtime Map.empty reply) (Some ''sk-test'') = Inr test_facade"
  by (simp add: GenAISystemEngineer_def test_runtime_def test_facade_def py_or_def getenv_def
      test_float_def)

lemma test_disabled_facade_constructed:
  "GenAISystemEngineer (test_runtime Map.empty reply) None = Inr test_disabled_facade"
  by (simp add: GenAISystemEngineer_def test_runtime_def test_disabled_facade_def py_or_def
      getenv_def test_float_def)

section \<open>The facade: frame, disabled path, totality\<close>

lemma entered_self: "self (entered m s) = self s"
  by (simp add: entered_def)

lemma entered_trace: "trace (entered m s) = trace s @ [Enter m]"
  by (simp add: entered_def)

lemma chat_completions_create_self:
  "self (snd (chat_completions_create rt system_content prompt s)) = self s"
  by (simp add: chat_completions_create_def Let_def split: option.splits sum.splits)

lemma chat_completions_create_sent:
  assumes "client (self s) = Some c"
    and "int_of_str rt (getenv rt ''GENAI_MAX_TOKENS'' ''2000'') = Inr n"
  shows "chat_completions_create rt system_content prompt s =
           (create rt c (chat_request_of (self s) system_content prompt n),
            s\<lparr>trace := trace s @ [Send c (chat_request_of (self s) system_content prompt n)]\<rparr>)"
  using assms by (simp add: chat_completions_create_def Let_def)

lemma analyze_requirements_self:
  "self (snd (analyze_requirements rt t s)) = self s"
proof -
  obtain r s' where c: "chat_completions_create rt ''You are a system engineering expert.''
      (analysis_prompt t) (entered AnalyzeRequirements s) = (r, s')"
    by (cases "chat_completions_create rt ''You are a system engineering expert.''
      (analysis_prompt t) (entered AnalyzeRequirements s)")
  have "self s' = self s"
    using chat_completions_create_self [of rt "''You are a system engineering expert.''"
        "analysis_prompt t" "entered AnalyzeRequirements s"] c
    by (simp add: entered_self)
  then show ?thesis
    using c by (simp add: analyze_requirements_def Let_def entered_self
        split: sum.splits option.splits exn.splits)
qed

lemma analyze_requirements_returns:
  "\<exists>r. fst (analyze_requirements rt t s) = Inr r"
  by (simp add: analyze_requirements_def Let_def split: prod.splits sum.splits exn.splits)

lemma analyze_requirements_disabled:
  "\<not> enabled (self s) \<Longrightarrow>
     analyze_requirements rt t s = (Inr disabled_result, entered AnalyzeRequirements s)"
  by (simp add: analyze_requirements_def Let_def is_enabled_def entered_self)

lemma generate_design_self:
  "self (snd (generate_design rt t tag s)) = self s"
proof -
  obtain r s' where c: "chat_completions_create rt ''You are an expert system designer.''
      (design_prompt t tag) (entered GenerateDesign s) = (r, s')"
    by (cases "chat_completions_create rt ''You are an expert system designer.''
      (design_prompt t tag) (entered GenerateDesign s)")
  have "self s' = self s"
    using chat_completions_create_self [of rt "''You are an expert system designer.''"
        "design_prompt t tag" "entered GenerateDesign s"] c
    by (simp add: entered_self)
  then show ?thesis
    using c by (simp add: generate_design_def Let_def entered_self split: sum.splits)
qed

lemma generate_design_returns:
  "\<exists>r. fst (generate_design rt t tag s) = Inr r"
  by (simp add: generate_design_def Let_def split: prod.splits sum.splits)

lemma generate_design_disabled:
  "\<not> enabled (self s) \<Longrightarrow>
     generate_design rt t tag s = (Inr disabled_result, entered GenerateDesign s)"
  by (simp add: generate_design_def Let_def is_enabled_def entered_self)

lemma assess_risks_self:
  "self (snd (assess_risks rt t s)) = self s"
proof -
  obtain r s' where c: "chat_completions_create rt ''You are a risk assessment expert.''
      (risk_prompt t) (entered AssessRisks s) = (r, s')"
    by (cases "chat_completions_create rt ''You are a risk assessment expert.''
      (risk_prompt t) (entered AssessRisks s)")
  have "self s' = self s"
    using chat_completions_create_self [of rt "''You are a risk assessment expert.''"
        "risk_prompt t" "entered AssessRisks s"] c
    by (simp add: entered_self)
  then show ?thesis
    using c by (simp add: assess_risks_def Let_def entered_self split: sum.splits)
qed

lemma assess_risks_returns:
  "\<exists>r. fst (assess_risks rt t s) = Inr r"
  by (simp add: assess_risks_def Let_def split: prod.splits sum.splits)

lemma assess_risks_disabled:
  "\<not> enabled (self s) \<Longrightarrow>
     assess_risks rt t s = (Inr disabled_result, entered AssessRisks s)"
  by (simp add: assess_risks_def Let_def is_enabled_def entered_self)

lemma generate_test_cases_self:
  "self (snd (generate_test_cases rt t tag s)) = self s"
proof -
  obtain r s' where c: "chat_completions_create rt ''You are a test engineering expert.''
      (test_case_prompt t tag) (entered GenerateTestCases s) = (r, s')"
    by (cases "chat_completions_create rt ''You are a test engineering expert.''
      (test_case_prompt t tag) (entered GenerateTestCases s)")
  have "self s' = self s"
    using chat_completions_create_self [of rt "''You are a test engineering expert.''"
        "test_case_prompt t tag" "entered GenerateTestCases s"] c
    by (simp add: entered_self)
  then show ?thesis
    using c by (simp add: generate_test_cases_def Let_def entered_self split: sum.splits)
qed

lemma generate_test_cases_returns:
  "\<exists>r. fst (generate_test_cases rt t tag s) = Inr r"
  by (simp add: generate_test_cases_def Let_def split: prod.splits sum.splits)

lemma generate_test_cases_disabled:
  "\<not> enabled (self s) \<Longrightarrow>
     generate_test_cases rt t tag s = (Inr disabled_result, entered GenerateTestCases s)"
  by (simp add: generate_test_cases_def Let_def is_enabled_def entered_self)

lemma optimize_system_self:
  "self (snd (optimize_system rt cfg tag s)) = self s"
proof (cases "json_dumps rt (PDict cfg)")
  case (Inl e)
  then show ?thesis
    by (simp add: optimize_system_def Let_def entered_self)
next
  case (Inr config_str)
  obtain r s' where c: "chat_completions_create rt ''You are a system optimization expert.''
      (optimization_prompt config_str tag) (entered OptimizeSystem s) = (r, s')"
    by (cases "chat_completions_create rt ''You are a system optimization expert.''
      (optimization_prompt config_str tag) (entered OptimizeSystem s)")
  have "self s' = self s"
    using chat_completions_create_self [of rt "''You are a system optimization expert.''"
        "optimization_prompt config_str tag" "entered OptimizeSystem s"] c
    by (simp add: entered_self)
  then show ?thesis
    using c Inr by (simp add: optimize_system_def Let_def entered_self split: sum.splits)
qed

lemma optimize_system_returns:
  "json_serializable_items cfg \<Longrightarrow> \<exists>r. fst (optimize_system rt cfg tag s) = Inr r"
  by (simp add: optimize_system_def json_dumps_def Let_def split: prod.splits sum.splits)

lemma optimize_system_raises:
  "enabled (self s) \<Longrightarrow> \<not> json_serializable_items cfg \<Longrightarrow>
     optimize_system rt cfg tag s =
       (Inl (TypeError ''Object of type set is not JSON serializable''), entered OptimizeSystem s)"
  by (simp add: optimize_system_def json_dumps_def Let_def is_enabled_def entered_self)

lemma optimize_system_disabled:
  "\<not> enabled (self s) \<Longrightarrow>
     optimize_system rt cfg tag s = (Inr disabled_result, entered OptimizeSystem s)"
  by (simp add: optimize_system_def Let_def is_enabled_def entered_self)

section \<open>Construction\<close>

lemma GenAISystemEngineer_fields:
  assumes "GenAISystemEngineer rt key = Inr f"
  shows "api_key f = py_or key (environ rt ''OPENAI_API_KEY'')"
    and "model f = getenv rt ''OPENAI_MODEL'' ''gpt-4''"
    and "float_of_str rt (getenv rt ''OPENAI_TEMPERATURE'' ''0.7'') = Inr (temperature f)"
    and "enabled f = (OPENAI_AVAILABLE rt \<and> truthy (py_or key (environ rt ''OPENAI_API_KEY'')))"
    and "client f = (if enabled f then map_option OpenAI (api_key f) else None)"
  using assms
  by (auto simp: GenAISystemEngineer_def Let_def split: sum.splits option.splits if_splits)

lemma GenAISystemEngineer_no_credential:
  assumes "GenAISystemEngineer rt key = Inr f"
    and "\<not> OPENAI_AVAILABLE rt \<or> (\<not> truthy key \<and> \<not> truthy (environ rt ''OPENAI_API_KEY''))"
  shows "\<not> enabled f"
  using assms GenAISystemEngineer_fields(4) [OF assms(1)]
  by (auto simp: py_or_def)

section \<open>The disabled path\<close>

text \<open>
  Claim C3. A facade constructed without a usable credential (the key argument and the
  environment's key both \<open>None\<close> or empty, or the provider library unavailable) answers each
  of the five task methods, on every input, with exactly the two-entry mapping of status
  \<open>disabled\<close> and the fixed guidance message; the facade is unchanged and the trace gains
  only the entry of the method, so no request is sent to the provider.
\<close>

theorem disabled_facade_short_circuits:
  assumes "GenAISystemEngineer rt key = Inr f"
    and "\<not> OPENAI_AVAILABLE rt \<or> (\<not> truthy key \<and> \<not> truthy (environ rt ''OPENAI_API_KEY''))"
  shows "disabled_result =
           [(''status'', PStr ''disabled''),
            (''message'', PStr ''GenAI is not configured. Please set OPENAI_API_KEY.'')]
       \<and> analyze_requirements rt t \<lparr>self = f, trace = tr\<rparr> =
           (Inr disabled_result, \<lparr>self = f, trace = tr @ [Enter AnalyzeRequirements]\<rparr>)
       \<and> generate_design rt t tag \<lparr>self = f, trace = tr\<rparr> =
           (Inr disabled_result, \<lparr>self = f, trace = tr @ [Enter GenerateDesign]\<rparr>)
       \<and> assess_risks rt t \<lparr>self = f, trace = tr\<rparr> =
           (Inr disabled_result, \<lparr>self = f, trace = tr @ [Enter AssessRisks]\<rparr>)
       \<and> generate_test_cases rt t tag \<lparr>self = f, trace = tr\<rparr> =
           (Inr disabled_result, \<lparr>self = f, trace = tr @ [Enter GenerateTestCases]\<rparr>)
       \<and> optimize_system rt cfg tag \<lparr>self = f, trace = tr\<rparr> =
           (Inr disabled_result, \<lparr>self = f, trace = tr @ [Enter OptimizeSystem]\<rparr>)"
proof -
  have off: "\<not> enabled (self \<lparr>self = f, trace = tr\<rparr>)"
    using GenAISystemEngineer_no_credential [OF assms] by simp
  show ?thesis
    by (simp add: analyze_requirements_disabled [OF off] generate_design_disabled [OF off]
        assess_risks_disabled [OF off] generate_test_cases_disabled [OF off]
        optimize_system_disabled [OF off] entered_def)
      (simp add: disabled_result_def)
qed

theorem disabled_facade_short_circuits_witness:
  "GenAISystemEngineer (test_runtime Map.empty (Inr (Response [Some ''unused'']))) None
     = Inr test_disabled_facade
   \<and> optimize_system (test_runtime Map.empty (Inr (Response [Some ''unused''])))
       [] (Some ''cost'') \<lparr>self = test_disabled_facade, trace = []\<rparr> =
       (Inr [(''status'', PStr ''disabled''),
             (''message'', PStr ''GenAI is not configured. Please set OPENAI_API_KEY.'')],
        \<lparr>self = test_disabled_facade, trace = [Enter OptimizeSystem]\<rparr>)
   \<and> analyze_requirements (test_runtime Map.empty (Inr (Response [Some ''unused''])))
       ''Test requirements'' \<lparr>self = test_disabled_facade, trace = []\<rparr> =
       (Inr [(''status'', PStr ''disabled''),
             (''message'', PStr ''GenAI is not configured. Please set OPENAI_API_KEY.'')],
        \<lparr>self = test_disabled_facade, trace = [Enter AnalyzeRequirements]\<rparr>)"
proof -
  let ?rt = "test_runtime Map.empty (Inr (Response [Some ''unused'']))"
  have c: "GenAISystemEngineer ?rt None = Inr test_disabled_facade"
    by (rule test_disabled_facade_constructed)
  have h: "\<not> OPENAI_AVAILABLE ?rt \<or> (\<not> truthy None \<and> \<not> truthy (environ ?rt ''OPENAI_API_KEY''))"
    by (simp add: test_runtime_def)
  show ?thesis
    using c disabled_facade_short_circuits [OF c h, of "''Test requirements''" "[]"
        "Some ''cost''" "[]"]
    by (simp add: disabled_result_def)
qed

section \<open>Exceptions at the method boundary\<close>

text \<open>
  Claim C1. The claim is that no task method ever raises. Four of the methods indeed return
  a mapping on every input (\<open>analyze_requirements_returns\<close>, \<open>generate_design_returns\<close>,
  \<open>assess_risks_returns\<close>, \<open>generate_test_cases_returns\<close>), and so does \<open>optimize_system\<close>
  on a serialisable configuration (\<open>optimize_system_returns\<close>). On an enabled facade and
  the configuration \<open>{"cache": {1, 2}}\<close>, whose value is a set, \<open>optimize_system\<close> raises the
  \<open>TypeError\<close> of \<open>json.dumps\<close>: the serialisation stands before the \<open>try\<close> block. No request
  is sent and no mapping is returned.
\<close>

theorem optimize_system_set_config_raises:
  "optimize_system (test_runtime Map.empty (Inr (Response [Some ''ok''])))
     [(''cache'', PSet [PInt 1, PInt 2])] (Some ''performance'')
     \<lparr>self = test_facade, trace = []\<rparr> =
   (Inl (TypeError ''Object of type set is not JSON serializable''),
    \<lparr>self = test_facade, trace = [Enter OptimizeSystem]\<rparr>)"
  by (simp add: optimize_system_def json_dumps_def Let_def is_enabled_def entered_def
      test_facade_def)

section \<open>The shape of task results\<close>

lemma well_shaped_disabled: "well_shaped disabled_result"
  by (simp add: well_shaped_def disabled_result_def payload_fields_def)

lemma well_shaped_error: "well_shaped (error_result prefix e)"
  by (simp add: well_shaped_def error_result_def payload_fields_def)

lemma well_shaped_success:
  "well_shaped [(''status'', PStr ''success''), (''analysis'', u), (''raw_response'', v)]"
  "well_shaped [(''status'', PStr ''success''), (''design'', u), (''design_type'', v)]"
  "well_shaped [(''status'', PStr ''success''), (''assessment'', u)]"
  "well_shaped [(''status'', PStr ''success''), (''test_cases'', u), (''test_type'', v)]"
  "well_shaped [(''status'', PStr ''success''), (''optimizations'', u), (''optimization_goal'', v)]"
  by (simp_all add: well_shaped_def)

lemma analyze_requirements_shape:
  "fst (analyze_requirements rt t s) = Inr r \<Longrightarrow> well_shaped r"
  by (auto simp: analyze_requirements_def Let_def well_shaped_disabled well_shaped_error
      well_shaped_success split: if_splits prod.splits sum.splits exn.splits)

lemma generate_design_shape:
  "fst (generate_design rt t tag s) = Inr r \<Longrightarrow> well_shaped r"
  by (auto simp: generate_design_def Let_def well_shaped_disabled well_shaped_error
      well_shaped_success split: if_splits prod.splits sum.splits)

lemma assess_risks_shape:
  "fst (assess_risks rt t s) = Inr r \<Longrightarrow> well_shaped r"
  by (auto simp: assess_risks_def Let_def well_shaped_disabled well_shaped_error
      well_shaped_success split: if_splits prod.splits sum.splits)

lemma generate_test_cases_shape:
  "fst (generate_test_cases rt t tag s) = Inr r \<Longrightarrow> well_shaped r"
  by (auto simp: generate_test_cases_def Let_def well_shaped_disabled well_shaped_error
      well_shaped_success split: if_splits prod.splits sum.splits)

lemma optimize_system_shape:
  "fst (optimize_system rt cfg tag s) = Inr r \<Longrightarrow> well_shaped r"
  by (auto simp: optimize_system_def Let_def well_shaped_disabled well_shaped_error
      well_shaped_success split: if_splits prod.splits sum.splits)

text \<open>
  Claim C5. Every mapping returned by one of the five task methods has a status among
  \<open>disabled\<close>, \<open>error\<close> and \<open>success\<close>; with status \<open>success\<close> it has no \<open>message\<close> entry;
  with status \<open>disabled\<close> or \<open>error\<close> it has none of the nine payload entries.
\<close>

theorem task_results_well_shaped:
  "(fst (analyze_requirements rt t s) = Inr r \<longrightarrow> well_shaped r)
 \<and> (fst (generate_design rt t tag s) = Inr r \<longrightarrow> well_shaped r)
 \<and> (fst (assess_risks rt t s) = Inr r \<longrightarrow> well_shaped r)
 \<and> (fst (generate_test_cases rt t tag s) = Inr r \<longrightarrow> well_shaped r)
 \<and> (fst (optimize_system rt cfg tag s) = Inr r \<longrightarrow> well_shaped r)"
proof (intro conjI impI)
  show "well_shaped r" if "fst (analyze_requirements rt t s) = Inr r"
    using that by (rule analyze_requirements_shape)
  show "well_shaped r" if "fst (generate_design rt t tag s) = Inr r"
    using that by (rule generate_design_shape)
  show "well_shaped r" if "fst (assess_risks rt t s) = Inr r"
    using that by (rule assess_risks_shape)
  show "well_shaped r" if "fst (generate_test_cases rt t tag s) = Inr r"
    using that by (rule generate_test_cases_shape)
  show "well_shaped r" if "fst (optimize_system rt cfg tag s) = Inr r"
    using that by (rule optimize_system_shape)
qed

section \<open>The enabled path: what is sent\<close>

lemma chat_completions_create_entered:
  assumes "client (self s) = Some c"
    and "int_of_str rt (getenv rt ''GENAI_MAX_TOKENS'' ''2000'') = Inr n"
  shows "chat_completions_create rt system_content prompt (entered m s) =
           (create rt c (chat_request_of (self s) system_content prompt n),
            s\<lparr>trace := trace s @
                 [Enter m, Send c (chat_request_of (self s) system_content prompt n)]\<rparr>)"
  using assms by (simp add: chat_completions_create_def Let_def entered_def)

lemma analyze_requirements_sends:
  assumes "enabled (self s)" and "client (self s) = Some c"
    and "int_of_str rt (getenv rt ''GENAI_MAX_TOKENS'' ''2000'') = Inr n"
  shows "snd (analyze_requirements rt t s) =
           s\<lparr>trace := trace s @
                [Enter AnalyzeRequirements,
                 Send c (chat_request_of (self s) ''You are a system engineering expert.''
                           (analysis_prompt t) n)]\<rparr>"
  using assms(1)
  by (simp add: analyze_requirements_def Let_def is_enabled_def entered_self
      chat_completions_create_entered [OF assms(2,3)]
      split: sum.splits exn.splits)

lemma generate_design_sends:
  assumes "enabled (self s)" and "client (self s) = Some c"
    and "int_of_str rt (getenv rt ''GENAI_MAX_TOKENS'' ''2000'') = Inr n"
  shows "snd (generate_design rt t tag s) =
           s\<lparr>trace := trace s @
                [Enter GenerateDesign,
                 Send c (chat_request_of (self s) ''You are an expert system designer.''
                           (design_prompt t tag) n)]\<rparr>"
  using assms(1)
  by (simp add: generate_design_def Let_def is_enabled_def entered_self
      chat_completions_create_entered [OF assms(2,3)]
      split: sum.splits)

lemma assess_risks_sends:
  assumes "enabled (self s)" and "client (self s) = Some c"
    and "int_of_str rt (getenv rt ''GENAI_MAX_TOKENS'' ''2000'') = Inr n"
  shows "snd (assess_risks rt t s) =
           s\<lparr>trace := trace s @
                [Enter AssessRisks,
                 Send c (chat_request_of (self s) ''You are a risk assessment expert.''
                           (risk_prompt t) n)]\<rparr>"
  using assms(1)
  by (simp add: assess_risks_def Let_def is_enabled_def entered_self
      chat_completions_create_entered [OF assms(2,3)]
      split: sum.splits)

lemma generate_test_cases_sends:
  assumes "enabled (self s)" and "client (self s) = Some c"
    and "int_of_str rt (getenv rt ''GENAI_MAX_TOKENS'' ''2000'') = Inr n"
  shows "snd (generate_test_cases rt t tag s) =
           s\<lparr>trace := trace s @
                [Enter GenerateTestCases,
                 Send c (chat_request_of (self s) ''You are a test engineering expert.''
                           (test_case_prompt t tag) n)]\<rparr>"
  using assms(1)
  by (simp add: generate_test_cases_def Let_def is_enabled_def entered_self
      chat_completions_create_entered [OF assms(2,3)]
      split: sum.splits)

lemma optimize_system_sends:
  assumes "enabled (self s)" and "client (self s) = Some c"
    and "int_of_str rt (getenv rt ''GENAI_MAX_TOKENS'' ''2000'') = Inr n"
    and "json_serializable_items cfg"
  shows "snd (optimize_system rt cfg tag s) =
           s\<lparr>trace := trace s @
                [Enter OptimizeSystem,
                 Send c (chat_request_of (self s) ''You are a system optimization expert.''
                           (optimization_prompt (json_encode rt (PDict cfg)) tag) n)]\<rparr>"
  using assms(1,4)
  by (simp add: optimize_system_def json_dumps_def Let_def is_enabled_def entered_self
      chat_completions_create_entered [OF assms(2,3)]
      split: sum.splits)

section \<open>The enabled path: what is returned\<close>


lemma generate_design_reply:
  assumes "enabled (self s)" and "client (self s) = Some c"
    and "int_of_str rt (getenv rt ''GENAI_MAX_TOKENS'' ''2000'') = Inr n"
  shows "fst (generate_design rt t tag s) =
           (case create rt c (chat_request_of (self s) ''You are an expert system designer.''
                                (design_prompt t tag) n) of
              Inl e \<Rightarrow> Inr (error_result ''Error during design generation: '' e)
            | Inr response \<Rightarrow>
                (case first_content response of
                   Inl e \<Rightarrow> Inr (error_result ''Error during design generation: '' e)
                 | Inr content \<Rightarrow>
                     Inr [(''status'', PStr ''success''), (''design'', opt_val content),
                          (''design_type'', opt_val tag)]))"
  using assms(1)
  by (simp add: generate_design_def Let_def is_enabled_def entered_self
      chat_completions_create_entered [OF assms(2,3)]
      split: sum.splits)

section \<open>The analysis task: the JSON fallback\<close>

lemma test_facade_ready:
  "enabled (self \<lparr>self = test_facade, trace = tr\<rparr>)"
  "client (self \<lparr>self = test_facade, trace = tr\<rparr>) = Some (OpenAI ''sk-test'')"
  by (simp_all add: test_facade_def)

lemma test_runtime_tokens:
  "int_of_str (test_runtime Map.empty reply)
     (getenv (test_runtime Map.empty reply) ''GENAI_MAX_TOKENS'' ''2000'') = Inr 2000"
  by (simp add: test_runtime_def getenv_def test_int_2000)

lemma test_runtime_tokens_50:
  "int_of_str (test_runtime [''GENAI_MAX_TOKENS'' \<mapsto> ''50''] reply)
     (getenv (test_runtime [''GENAI_MAX_TOKENS'' \<mapsto> ''50''] reply)
        ''GENAI_MAX_TOKENS'' ''2000'') = Inr 50"
  by (simp add: test_runtime_def getenv_def test_int_50)

lemma test_runtime_create: "create (test_runtime env reply) c req = reply"
  by (simp add: test_runtime_def)





section \<open>Evaluations on the concrete runtime\<close>

lemmas test_eval =
  is_enabled_def entered_def chat_completions_create_def chat_request_of_def getenv_def
  test_runtime_def test_facade_def test_int_2000 test_int_50 Let_def error_result_def

lemma test_generate_design:
  "fst (generate_design (test_runtime Map.empty (Inr (Response [Some ''A design''])))
          ''spec text'' (Some ''api'') \<lparr>self = test_facade, trace = []\<rparr>) =
     Inr [(''status'', PStr ''success''), (''design'', PStr ''A design''),
          (''design_type'', PStr ''api'')]"
  by (simp add: generate_design_def test_eval)

lemma test_assess_risks_error:
  "fst (assess_risks (test_runtime Map.empty (Inl (ProviderError ''Connection error.'')))
          ''x'' \<lparr>self = test_facade, trace = []\<rparr>) =
     Inr [(''status'', PStr ''error''),
          (''message'', PStr ''Error during risk assessment: Connection error.'')]"
  by (simp add: assess_risks_def test_eval)

theorem task_results_well_shaped_witness:
  "fst (generate_design (test_runtime Map.empty (Inr (Response [Some ''A design''])))
          ''spec text'' (Some ''api'') \<lparr>self = test_facade, trace = []\<rparr>) =
     Inr [(''status'', PStr ''success''), (''design'', PStr ''A design''),
          (''design_type'', PStr ''api'')]
   \<and> well_shaped [(''status'', PStr ''success''), (''design'', PStr ''A design''),
          (''design_type'', PStr ''api'') :: string \<times> string pyval]
   \<and> fst (assess_risks (test_runtime Map.empty (Inl (ProviderError ''Connection error.'')))
          ''x'' \<lparr>self = test_facade, trace = []\<rparr>) =
     Inr [(''status'', PStr ''error''),
          (''message'', PStr ''Error during risk assessment: Connection error.'')]
   \<and> well_shaped [(''status'', PStr ''error''),
          (''message'', PStr ''Error during risk assessment: Connection error.'')
            :: string \<times> string pyval]"
proof -
  note d = task_results_well_shaped
    [where rt = "test_runtime Map.empty (Inr (Response [Some ''A design'']))"
       and t = "''spec text''" and tag = "Some ''api''"
       and s = "\<lparr>self = test_facade, trace = []\<rparr>"
       and r = "[(''status'', PStr ''success''), (''design'', PStr ''A design''),
                 (''design_type'', PStr ''api'')]"]
  note e = task_results_well_shaped
    [where rt = "test_runtime Map.empty (Inl (ProviderError ''Connection error.''))"
       and t = "''x''" and s = "\<lparr>self = test_facade, trace = []\<rparr>"
       and r = "[(''status'', PStr ''error''),
                 (''message'', PStr ''Error during risk assessment: Connection error.'')]"]
  from d have 1: "well_shaped [(''status'', PStr ''success''), (''design'', PStr ''A design''),
          (''design_type'', PStr ''api'') :: string \<times> string pyval]"
    using test_generate_design by blast
  from e have 2: "well_shaped [(''status'', PStr ''error''),
          (''message'', PStr ''Error during risk assessment: Connection error.'')
            :: string \<times> string pyval]"
    using test_assess_risks_error by blast
  show ?thesis
    using 1 2 test_generate_design test_assess_risks_error by blast
qed

section \<open>Default tags\<close>

lemma generate_design_success_tag:
  assumes "fst (generate_design rt spec tag s) = Inr r"
    and "map_of r ''status'' = Some (PStr ''success'')"
  shows "map_of r ''design_type'' = Some (opt_val tag)"
  using assms
  by (auto simp: generate_design_def Let_def disabled_result_def error_result_def
      split: if_splits prod.splits sum.splits)

text \<open>
  Claim C7. For every specifications string, on an enabled facade, \<open>generate_design\<close>
  called without a \<open>design_type\<close> sends its request, and when the provider call succeeds,
  returning a response with a first choice, the method returns a success mapping whose
  \<open>design_type\<close> entry is \<open>architecture\<close>, next to the content of that choice as \<open>design\<close>.
  Moreover no run of the call returns a success with any other \<open>design_type\<close>.
\<close>

theorem generate_design_default_design_type:
  assumes "enabled (self s)" and "client (self s) = Some c"
    and "int_of_str rt (getenv rt ''GENAI_MAX_TOKENS'' ''2000'') = Inr n"
    and "create rt c (chat_request_of (self s) ''You are an expert system designer.''
                        (design_prompt spec (Some ''architecture'')) n) =
           Inr (Response (content # others))"
  shows "fst (generate_design_default rt spec s) =
           Inr [(''status'', PStr ''success''), (''design'', opt_val content),
                (''design_type'', PStr ''architecture'')]
       \<and> map_of [(''status'', PStr ''success''), (''design'', opt_val content),
                 (''design_type'', PStr ''architecture'')] ''design_type'' =
           Some (PStr ''architecture'')
       \<and> (\<forall>rt' s' r. fst (generate_design_default rt' spec s') = Inr r \<and>
              map_of r ''status'' = Some (PStr ''success'') \<longrightarrow>
              map_of r ''design_type'' = Some (PStr ''architecture''))"
proof (intro conjI allI impI)
  show "fst (generate_design_default rt spec s) =
           Inr [(''status'', PStr ''success''), (''design'', opt_val content),
                (''design_type'', PStr ''architecture'')]"
    by (simp add: generate_design_default_def generate_design_reply [OF assms(1,2,3)] assms(4))
  show "map_of [(''status'', PStr ''success''), (''design'', opt_val content),
                 (''design_type'', PStr ''architecture'')] ''design_type'' =
           Some (PStr ''architecture'')"
    by simp
  show "map_of r ''design_type'' = Some (PStr ''architecture'')"
    if "fst (generate_design_default rt' spec s') = Inr r \<and>
        map_of r ''status'' = Some (PStr ''success'')" for rt' s' r
    using that generate_design_success_tag [of rt' spec "Some ''architecture''" s' r]
    by (simp add: generate_design_default_def)
qed

theorem generate_design_default_design_type_witness:
  "fst (generate_design_default (test_runtime Map.empty (Inr (Response [Some ''A design''])))
          ''spec text'' \<lparr>self = test_facade, trace = []\<rparr>) =
     Inr [(''status'', PStr ''success''), (''design'', PStr ''A design''),
          (''design_type'', PStr ''architecture'')]
   \<and> map_of [(''status'', PStr ''success''), (''design'', PStr ''A design''),
          (''design_type'', PStr ''architecture'' :: string pyval)] ''design_type'' =
       Some (PStr ''architecture'')"
proof -
  let ?rt = "test_runtime Map.empty (Inr (Response [Some ''A design'']))"
  let ?s = "\<lparr>self = test_facade, trace = []\<rparr>"
  have ready: "enabled (self ?s)" "client (self ?s) = Some (OpenAI ''sk-test'')"
    by (rule test_facade_ready)+
  note th = generate_design_default_design_type
    [where rt = "?rt" and s = "?s" and c = "OpenAI ''sk-test''" and n = 2000
       and spec = "''spec text''" and content = "Some ''A design''" and others = "[]",
     OF ready test_runtime_tokens test_runtime_create]
  have run: "fst (generate_design_default ?rt ''spec text'' ?s) =
     Inr [(''status'', PStr ''success''), (''design'', opt_val (Some ''A design'')),
          (''design_type'', PStr ''architecture'')]"
    using th by blast
  have tag: "map_of [(''status'', PStr ''success''), (''design'', opt_val (Some ''A design'')),
          (''design_type'', PStr ''architecture'' :: string pyval)] ''design_type'' =
       Some (PStr ''architecture'')"
    using th by blast
  show ?thesis
    using run tag by simp
qed

section \<open>Configuration: what is fixed at construction and what is read per call\<close>

lemma chat_request_of_fields:
  "req_model (chat_request_of f system_content prompt n) = model f"
  "req_temperature (chat_request_of f system_content prompt n) = temperature f"
  "req_max_tokens (chat_request_of f system_content prompt n) = n"
  by (simp_all add: chat_request_of_def)

text \<open>
  Claim C9, as stated, fails for the token budget. One facade, constructed once with an
  empty environment, sends a budget of 2000 when \<open>GENAI_MAX_TOKENS\<close> is unset at the time
  of the call and a budget of 50 when the variable is 50 at the time of the call: the
  budget is read from the environment inside every call.
\<close>

theorem token_budget_read_per_call:
  "GenAISystemEngineer (test_runtime Map.empty (Inr (Response [Some ''ok''])))
       (Some ''sk-test'') = Inr test_facade
   \<and> sent_max_tokens (trace (snd (assess_risks
         (test_runtime Map.empty (Inr (Response [Some ''ok''])))
         ''x'' \<lparr>self = test_facade, trace = []\<rparr>))) = [2000]
   \<and> sent_max_tokens (trace (snd (assess_risks
         (test_runtime [''GENAI_MAX_TOKENS'' \<mapsto> ''50''] (Inr (Response [Some ''ok''])))
         ''x'' \<lparr>self = test_facade, trace = []\<rparr>))) = [50]"
proof -
  have 1: "GenAISystemEngineer (test_runtime Map.empty (Inr (Response [Some ''ok''])))
       (Some ''sk-test'') = Inr test_facade"
    by (rule test_facade_constructed)
  have 2: "sent_max_tokens (trace (snd (assess_risks
         (test_runtime Map.empty (Inr (Response [Some ''ok''])))
         ''x'' \<lparr>self = test_facade, trace = []\<rparr>))) = [2000]"
    by (simp add: assess_risks_sends [OF test_facade_ready test_runtime_tokens]
        chat_request_of_fields)
  have 3: "sent_max_tokens (trace (snd (assess_risks
         (test_runtime [''GENAI_MAX_TOKENS'' \<mapsto> ''50''] (Inr (Response [Some ''ok''])))
         ''x'' \<lparr>self = test_facade, trace = []\<rparr>))) = [50]"
    by (simp add: assess_risks_sends [OF test_facade_ready test_runtime_tokens_50]
        chat_request_of_fields)
  show ?thesis using 1 2 3 by simp
qed

text \<open>
  Claim C9, amended. The credential, the model identifier and the temperature are read
  when the facade is constructed. No task method changes any field of the facade. A
  disabled facade sends nothing. An enabled facade sends one request, through its own
  client, with its own model and temperature; the token budget of that request is not a
  field of the facade: it is \<open>int(os.getenv("GENAI_MAX_TOKENS", "2000"))\<close>, read from the
  environment during the call.
\<close>

theorem facade_configuration_fixed_budget_per_call:
  "(GenAISystemEngineer rtc key = Inr f \<longrightarrow>
       api_key f = py_or key (environ rtc ''OPENAI_API_KEY'')
     \<and> model f = getenv rtc ''OPENAI_MODEL'' ''gpt-4''
     \<and> float_of_str rtc (getenv rtc ''OPENAI_TEMPERATURE'' ''0.7'') = Inr (temperature f))
 \<and> self (snd (analyze_requirements rt t s)) = self s
 \<and> self (snd (generate_design rt t tag s)) = self s
 \<and> self (snd (assess_risks rt t s)) = self s
 \<and> self (snd (generate_test_cases rt t tag s)) = self s
 \<and> self (snd (optimize_system rt cfg tag s)) = self s
 \<and> (\<not> enabled (self s) \<longrightarrow>
       trace (snd (analyze_requirements rt t s)) = trace s @ [Enter AnalyzeRequirements]
     \<and> trace (snd (generate_design rt t tag s)) = trace s @ [Enter GenerateDesign]
     \<and> trace (snd (assess_risks rt t s)) = trace s @ [Enter AssessRisks]
     \<and> trace (snd (generate_test_cases rt t tag s)) = trace s @ [Enter GenerateTestCases]
     \<and> trace (snd (optimize_system rt cfg tag s)) = trace s @ [Enter OptimizeSystem])
 \<and> (enabled (self s) \<and> client (self s) = Some c
      \<and> int_of_str rt (getenv rt ''GENAI_MAX_TOKENS'' ''2000'') = Inr n \<longrightarrow>
       (\<exists>req. trace (snd (analyze_requirements rt t s)) =
                 trace s @ [Enter AnalyzeRequirements, Send c req]
            \<and> req_model req = model (self s) \<and> req_temperature req = temperature (self s)
            \<and> req_max_tokens req = n)
     \<and> (\<exists>req. trace (snd (generate_design rt t tag s)) =
                 trace s @ [Enter GenerateDesign, Send c req]
            \<and> req_model req = model (self s) \<and> req_temperature req = temperature (self s)
            \<and> req_max_tokens req = n)
     \<and> (\<exists>req. trace (snd (assess_risks rt t s)) =
                 trace s @ [Enter AssessRisks, Send c req]
            \<and> req_model req = model (self s) \<and> req_temperature req = temperature (self s)
            \<and> req_max_tokens req = n)
     \<and> (\<exists>req. trace (snd (generate_test_cases rt t tag s)) =
                 trace s @ [Enter GenerateTestCases, Send c req]
            \<and> req_model req = model (self s) \<and> req_temperature req = temperature (self s)
            \<and> req_max_tokens req = n)
     \<and> (json_serializable_items cfg \<longrightarrow>
          (\<exists>req. trace (snd (optimize_system rt cfg tag s)) =
                 trace s @ [Enter OptimizeSystem, Send c req]
            \<and> req_model req = model (self s) \<and> req_temperature req = temperature (self s)
            \<and> req_max_tokens req = n)))"
proof (intro conjI impI)
  assume "GenAISystemEngineer rtc key = Inr f"
  then show "api_key f = py_or key (environ rtc ''OPENAI_API_KEY'')"
    and "model f = getenv rtc ''OPENAI_MODEL'' ''gpt-4''"
    and "float_of_str rtc (getenv rtc ''OPENAI_TEMPERATURE'' ''0.7'') = Inr (temperature f)"
    by (rule GenAISystemEngineer_fields)+
next
  show "self (snd (analyze_requirements rt t s)) = self s"
    by (rule analyze_requirements_self)
  show "self (snd (generate_design rt t tag s)) = self s"
    by (rule generate_design_self)
  show "self (snd (assess_risks rt t s)) = self s"
    by (rule assess_risks_self)
  show "self (snd (generate_test_cases rt t tag s)) = self s"
    by (rule generate_test_cases_self)
  show "self (snd (optimize_system rt cfg tag s)) = self s"
    by (rule optimize_system_self)
next
  assume off: "\<not> enabled (self s)"
  show "trace (snd (analyze_requirements rt t s)) = trace s @ [Enter AnalyzeRequirements]"
    by (simp add: analyze_requirements_disabled [OF off] entered_trace)
  show "trace (snd (generate_design rt t tag s)) = trace s @ [Enter GenerateDesign]"
    by (simp add: generate_design_disabled [OF off] entered_trace)
  show "trace (snd (assess_risks rt t s)) = trace s @ [Enter AssessRisks]"
    by (simp add: assess_risks_disabled [OF off] entered_trace)
  show "trace (snd (generate_test_cases rt t tag s)) = trace s @ [Enter GenerateTestCases]"
    by (simp add: generate_test_cases_disabled [OF off] entered_trace)
  show "trace (snd (optimize_system rt cfg tag s)) = trace s @ [Enter OptimizeSystem]"
    by (simp add: optimize_system_disabled [OF off] entered_trace)
next
  assume on: "enabled (self s) \<and> client (self s) = Some c
      \<and> int_of_str rt (getenv rt ''GENAI_MAX_TOKENS'' ''2000'') = Inr n"
  then have e: "enabled (self s)" and c: "client (self s) = Some c"
    and n: "int_of_str rt (getenv rt ''GENAI_MAX_TOKENS'' ''2000'') = Inr n"
    by simp_all
  show "\<exists>req. trace (snd (analyze_requirements rt t s)) =
                 trace s @ [Enter AnalyzeRequirements, Send c req]
            \<and> req_model req = model (self s) \<and> req_temperature req = temperature (self s)
            \<and> req_max_tokens req = n"
    by (simp add: analyze_requirements_sends [OF e c n] chat_request_of_fields)
  show "\<exists>req. trace (snd (generate_design rt t tag s)) =
                 trace s @ [Enter GenerateDesign, Send c req]
            \<and> req_model req = model (self s) \<and> req_temperature req = temperature (self s)
            \<and> req_max_tokens req = n"
    by (simp add: generate_design_sends [OF e c n] chat_request_of_fields)
  show "\<exists>req. trace (snd (assess_risks rt t s)) =
                 trace s @ [Enter AssessRisks, Send c req]
            \<and> req_model req = model (self s) \<and> req_temperature req = temperature (self s)
            \<and> req_max_tokens req = n"
    by (simp add: assess_risks_sends [OF e c n] chat_request_of_fields)
  show "\<exists>req. trace (snd (generate_test_cases rt t tag s)) =
                 trace s @ [Enter GenerateTestCases, Send c req]
            \<and> req_model req = model (self s) \<and> req_temperature req = temperature (self s)
            \<and> req_max_tokens req = n"
    by (simp add: generate_test_cases_sends [OF e c n] chat_request_of_fields)
  show "\<exists>req. trace (snd (optimize_system rt cfg tag s)) =
                 trace s @ [Enter OptimizeSystem, Send c req]
            \<and> req_model req = model (self s) \<and> req_temperature req = temperature (self s)
            \<and> req_max_tokens req = n"
    if "json_serializable_items cfg"
    by (simp add: optimize_system_sends [OF e c n that] chat_request_of_fields)
qed

theorem facade_configuration_fixed_budget_per_call_witness:
  "self (snd (assess_risks
       (test_runtime [''GENAI_MAX_TOKENS'' \<mapsto> ''50''] (Inr (Response [Some ''ok''])))
       ''x'' \<lparr>self = test_facade, trace = []\<rparr>)) = test_facade
   \<and> (\<exists>req. trace (snd (assess_risks
           (test_runtime [''GENAI_MAX_TOKENS'' \<mapsto> ''50''] (Inr (Response [Some ''ok''])))
           ''x'' \<lparr>self = test_facade, trace = []\<rparr>)) =
           [Enter AssessRisks, Send (OpenAI ''sk-test'') req]
         \<and> req_model req = ''gpt-4'' \<and> req_temperature req = ''0.7''
         \<and> req_max_tokens req = 50)
   \<and> model test_facade = ''gpt-4''"
proof -
  let ?rt = "test_runtime [''GENAI_MAX_TOKENS'' \<mapsto> ''50''] (Inr (Response [Some ''ok'']))"
  let ?base = "test_runtime Map.empty (Inr (Response [Some ''ok'']))"
  let ?s = "\<lparr>self = test_facade, trace = []\<rparr>"
  note th = facade_configuration_fixed_budget_per_call
    [where rtc = "?base" and key = "Some ''sk-test''" and f = test_facade
       and rt = "?rt" and t = "''x''" and s = "?s" and c = "OpenAI ''sk-test''" and n = 50
       and tag = None and cfg = "[]"]
  have built: "GenAISystemEngineer ?base (Some ''sk-test'') = Inr test_facade"
    by (rule test_facade_constructed)
  have on: "enabled (self ?s) \<and> client (self ?s) = Some (OpenAI ''sk-test'')
      \<and> int_of_str ?rt (getenv ?rt ''GENAI_MAX_TOKENS'' ''2000'') = Inr 50"
    using test_facade_ready [of "[]"] test_runtime_tokens_50 by blast
  have a: "self (snd (assess_risks ?rt ''x'' ?s)) = self ?s"
    using th by blast
  have b: "\<exists>req. trace (snd (assess_risks ?rt ''x'' ?s)) =
                 trace ?s @ [Enter AssessRisks, Send (OpenAI ''sk-test'') req]
            \<and> req_model req = model (self ?s) \<and> req_temperature req = temperature (self ?s)
            \<and> req_max_tokens req = 50"
    using th on by blast
  have m: "model test_facade = getenv ?base ''OPENAI_MODEL'' ''gpt-4''"
    using th built by blast
  have m': "getenv ?base ''OPENAI_MODEL'' ''gpt-4'' = ''gpt-4''"
    by (simp add: getenv_def test_runtime_def)
  have tf: "temperature test_facade = ''0.7''"
    by (simp add: test_facade_def)
  from b obtain req where r: "trace (snd (assess_risks ?rt ''x'' ?s)) =
                 trace ?s @ [Enter AssessRisks, Send (OpenAI ''sk-test'') req]"
    "req_model req = model (self ?s)" "req_temperature req = temperature (self ?s)"
    "req_max_tokens req = 50"
    by blast
  have "trace (snd (assess_risks ?rt ''x'' ?s)) =
           [Enter AssessRisks, Send (OpenAI ''sk-test'') req]
         \<and> req_model req = ''gpt-4'' \<and> req_temperature req = ''0.7''
         \<and> req_max_tokens req = 50"
    using r m m' tf by simp
  then have ex: "\<exists>req. trace (snd (assess_risks ?rt ''x'' ?s)) =
           [Enter AssessRisks, Send (OpenAI ''sk-test'') req]
         \<and> req_model req = ''gpt-4'' \<and> req_temperature req = ''0.7''
         \<and> req_max_tokens req = 50"
    by (rule exI)
  show ?thesis
    using a ex m m' by simp
qed

section \<open>The adapter: start-up and the status endpoint\<close>

lemma startup_missing: "startup rt False = Inr test_app_missing"
  by (simp add: startup_def test_app_missing_def)

lemma startup_disabled:
  "startup (test_runtime Map.empty reply) True = Inr test_app_disabled"
  by (simp add: startup_def create_genai_engineer_def test_disabled_facade_constructed
      test_app_disabled_def)

text \<open>
  Claim C6. In every state of the adapter the status endpoint returns a body (status 200)
  and leaves the state as it was; the body has a boolean \<open>enabled\<close> and a \<open>message\<close>, and
  it has a \<open>model\<close> entry, the facade's model identifier, exactly when the endpoint finds
  the module available and the facade enabled.
\<close>

theorem genai_status_never_errors:
  "\<exists>body. genai_status a = (Inr body, a)
      \<and> status_code (fst (genai_status a)) = 200
      \<and> map_of body ''enabled'' = Some (PBool (reports_enabled a))
      \<and> (\<exists>m. map_of body ''message'' = Some (PStr m))
      \<and> map_of body ''model'' =
          (if reports_enabled a
           then (case genai_engineer a of None \<Rightarrow> None | Some f \<Rightarrow> Some (PStr (model f)))
           else None)"
  by (cases "genai_engineer a")
    (simp_all add: genai_status_def reports_enabled_def)

theorem genai_status_never_errors_witness:
  "status_code (fst (genai_status test_app_missing)) = 200
   \<and> fst (genai_status test_app_missing) =
       Inr [(''enabled'', PBool False),
            (''message'', PStr ''GenAI module is not available. Install required dependencies.'')]
   \<and> status_code (fst (genai_status test_app_disabled)) = 200
   \<and> fst (genai_status test_app_disabled) =
       Inr [(''enabled'', PBool False),
            (''message'',
             PStr ''GenAI is not configured. Please set OPENAI_API_KEY environment variable.'')]
   \<and> status_code (fst (genai_status test_app_enabled)) = 200
   \<and> fst (genai_status test_app_enabled) =
       Inr [(''enabled'', PBool True), (''message'', PStr ''GenAI System Engineering is ready''),
            (''model'', PStr ''gpt-4'')]"
proof -
  have 1: "status_code (fst (genai_status test_app_missing)) = 200"
    using genai_status_never_errors [of test_app_missing] by blast
  have 2: "status_code (fst (genai_status test_app_disabled)) = 200"
    using genai_status_never_errors [of test_app_disabled] by blast
  have 3: "status_code (fst (genai_status test_app_enabled)) = 200"
    using genai_status_never_errors [of test_app_enabled] by blast
  show ?thesis
    using 1 2 3
    by (simp add: genai_status_def test_app_missing_def test_app_disabled_def
        test_app_enabled_def is_enabled_def test_facade_def test_disabled_facade_def)
qed

section \<open>The adapter: signing up\<close>

lemma signup_existing:
  assumes "activities a name = Some act"
  shows "signup_for_activity name email a =
           (Inr [(''message'', PStr (''Signed up '' @ email @ '' for '' @ name))],
            a\<lparr>activities := (activities a)
                 (name \<mapsto> act\<lparr>participants := participants act @ [email]\<rparr>)\<rparr>)"
  using assms by (simp add: signup_for_activity_def)

lemma signup_missing:
  assumes "activities a name = None"
  shows "signup_for_activity name email a = (Inl (HTTPException 404 ''Activity not found''), a)"
  using assms by (simp add: signup_for_activity_def)

text \<open>
  Claim C8. Signing up for a key of the activity store returns the success message and
  appends the address to that activity's participants, leaving the other activities as
  they were; a second identical call appends the address again. Signing up for a key
  that is not in the store raises \<open>HTTPException\<close> with status 404 and leaves the state as
  it was.
\<close>

theorem signup_appends_or_404:
  "(activities a name = Some act \<longrightarrow>
       fst (signup_for_activity name email a) =
         Inr [(''message'', PStr (''Signed up '' @ email @ '' for '' @ name))]
     \<and> activities (snd (signup_for_activity name email a)) name =
         Some (act\<lparr>participants := participants act @ [email]\<rparr>)
     \<and> (\<forall>k. k \<noteq> name \<longrightarrow>
           activities (snd (signup_for_activity name email a)) k = activities a k)
     \<and> activities (snd (signup_for_activity name email
                          (snd (signup_for_activity name email a)))) name =
         Some (act\<lparr>participants := participants act @ [email, email]\<rparr>))
 \<and> (activities a name = None \<longrightarrow>
       fst (signup_for_activity name email a) = Inl (HTTPException 404 ''Activity not found'')
     \<and> status_code (fst (signup_for_activity name email a)) = 404
     \<and> snd (signup_for_activity name email a) = a)"
proof (intro conjI impI allI)
  assume ex: "activities a name = Some act"
  let ?a1 = "snd (signup_for_activity name email a)"
  have one: "activities ?a1 name = Some (act\<lparr>participants := participants act @ [email]\<rparr>)"
    by (simp add: signup_existing [OF ex])
  show "fst (signup_for_activity name email a) =
         Inr [(''message'', PStr (''Signed up '' @ email @ '' for '' @ name))]"
    by (simp add: signup_existing [OF ex])
  show "activities ?a1 name = Some (act\<lparr>participants := participants act @ [email]\<rparr>)"
    by (rule one)
  show "activities ?a1 k = activities a k" if "k \<noteq> name" for k
    using that by (simp add: signup_existing [OF ex])
  show "activities (snd (signup_for_activity name email ?a1)) name =
         Some (act\<lparr>participants := participants act @ [email, email]\<rparr>)"
    by (simp add: signup_existing [OF one])
next
  assume no: "activities a name = None"
  show "fst (signup_for_activity name email a) = Inl (HTTPException 404 ''Activity not found'')"
    by (simp add: signup_missing [OF no])
  show "status_code (fst (signup_for_activity name email a)) = 404"
    by (simp add: signup_missing [OF no])
  show "snd (signup_for_activity name email a) = a"
    by (simp add: signup_missing [OF no])
qed

lemma seed_chess_club:
  "activities test_app_missing ''Chess Club'' =
     Some \<lparr>description = ''Learn strategies and compete in chess tournaments'',
           schedule = ''Fridays, 3:30 PM - 5:00 PM'',
           max_participants = 12,
           participants = [''michael@mergington.edu'', ''daniel@mergington.edu'']\<rparr>"
  by (simp add: test_app_missing_def seed_activities_def)

lemma seed_no_drama_club: "activities test_app_missing ''Drama Club'' = None"
  by (simp add: test_app_missing_def seed_activities_def)

theorem signup_appends_or_404_witness:
  "fst (signup_for_activity ''Chess Club'' ''a@mergington.edu'' test_app_missing) =
     Inr [(''message'', PStr ''Signed up a@mergington.edu for Chess Club'')]
   \<and> map_option participants
       (activities (snd (signup_for_activity ''Chess Club'' ''a@mergington.edu''
          (snd (signup_for_activity ''Chess Club'' ''a@mergington.edu'' test_app_missing))))
          ''Chess Club'') =
       Some [''michael@mergington.edu'', ''daniel@mergington.edu'',
             ''a@mergington.edu'', ''a@mergington.edu'']
   \<and> status_code (fst (signup_for_activity ''Drama Club'' ''a@mergington.edu''
         test_app_missing)) = 404
   \<and> snd (signup_for_activity ''Drama Club'' ''a@mergington.edu'' test_app_missing) =
       test_app_missing"
proof -
  note th = signup_appends_or_404
    [where a = test_app_missing and name = "''Chess Club''" and email = "''a@mergington.edu''"
       and act = "\<lparr>description = ''Learn strategies and compete in chess tournaments'',
           schedule = ''Fridays, 3:30 PM - 5:00 PM'',
           max_participants = 12,
           participants = [''michael@mergington.edu'', ''daniel@mergington.edu'']\<rparr>"]
  note th404 = signup_appends_or_404
    [where a = test_app_missing and name = "''Drama Club''" and email = "''a@mergington.edu''"]
  have 1: "fst (signup_for_activity ''Chess Club'' ''a@mergington.edu'' test_app_missing) =
     Inr [(''message'', PStr (''Signed up '' @ ''a@mergington.edu'' @ '' for '' @ ''Chess Club''))]"
    using th seed_chess_club by blast
  have 2: "activities (snd (signup_for_activity ''Chess Club'' ''a@mergington.edu''
          (snd (signup_for_activity ''Chess Club'' ''a@mergington.edu'' test_app_missing))))
          ''Chess Club'' =
       Some (\<lparr>description = ''Learn strategies and compete in chess tournaments'',
           schedule = ''Fridays, 3:30 PM - 5:00 PM'',
           max_participants = 12,
           participants = [''michael@mergington.edu'', ''daniel@mergington.edu'']\<rparr>
          \<lparr>participants := [''michael@mergington.edu'', ''daniel@mergington.edu'']
              @ [''a@mergington.edu'', ''a@mergington.edu'']\<rparr>)"
    using th seed_chess_club by simp
  have 3: "status_code (fst (signup_for_activity ''Drama Club'' ''a@mergington.edu''
         test_app_missing)) = 404"
    and 4: "snd (signup_for_activity ''Drama Club'' ''a@mergington.edu'' test_app_missing) =
       test_app_missing"
    using th404 seed_no_drama_club by blast+
  show ?thesis
    using 1 2 3 4 by simp
qed

section \<open>The adapter: capacity\<close>







section \<open>The adapter: the five task endpoints\<close>

lemma unavailable_status:
  "status_code (fst (unavailable a)) = 503" "snd (unavailable a) = a"
  by (simp_all add: unavailable_def)

lemma relay_returns:
  "fst (relay a (Inr r, s')) = Inr r"
  "status_code (fst (relay a (Inr r, s'))) = 200"
  "events (snd (relay a (Inr r, s'))) = trace s'"
  "genai_engineer (snd (relay a (Inr r, s'))) = Some (self s')"
  by (simp_all add: relay_def)

lemma endpoints_unavailable:
  assumes "\<not> GENAI_AVAILABLE a \<or> genai_engineer a = None"
  shows "app_analyze_requirements rt q1 a = unavailable a"
    and "app_generate_design rt q2 a = unavailable a"
    and "app_assess_risks rt q3 a = unavailable a"
    and "app_generate_test_cases rt q4 a = unavailable a"
    and "app_optimize_system rt q5 a = unavailable a"
  using assms
  by (auto simp: app_analyze_requirements_def app_generate_design_def app_assess_risks_def
      app_generate_test_cases_def app_optimize_system_def)

lemma endpoints_available:
  assumes "GENAI_AVAILABLE a" and "genai_engineer a = Some f"
  shows "app_analyze_requirements rt q1 a =
           relay a (analyze_requirements rt (requirements_text q1)
                      \<lparr>self = f, trace = events a\<rparr>)"
    and "app_generate_design rt q2 a =
           relay a (generate_design rt (specifications q2) (design_type q2)
                      \<lparr>self = f, trace = events a\<rparr>)"
    and "app_assess_risks rt q3 a =
           relay a (assess_risks rt (system_description q3) \<lparr>self = f, trace = events a\<rparr>)"
    and "app_generate_test_cases rt q4 a =
           relay a (generate_test_cases rt (requirements q4) (test_type q4)
                      \<lparr>self = f, trace = events a\<rparr>)"
    and "app_optimize_system rt q5 a =
           relay a (optimize_system rt (system_config q5) (optimization_goal q5)
                      \<lparr>self = f, trace = events a\<rparr>)"
  using assms
  by (simp_all add: app_analyze_requirements_def app_generate_design_def app_assess_risks_def
      app_generate_test_cases_def app_optimize_system_def)

text \<open>
  Claim C2. For each of the five task endpoints and every request that reaches the
  handler: when the facade module failed to import or the facade instance is absent, the
  handler raises \<open>HTTPException\<close> with status 503 and the state, with its trace of facade
  activity, is as before, so that no facade method was entered. Otherwise, whenever the
  matching facade method returns a mapping, that mapping is the response body, with status
  200, whatever its \<open>status\<close> entry says.
\<close>

theorem task_endpoints_503_or_relay:
  "(\<not> GENAI_AVAILABLE a \<or> genai_engineer a = None \<longrightarrow>
       app_analyze_requirements rt q1 a =
         (Inl (HTTPException 503 ''GenAI functionality is not available''), a)
     \<and> app_generate_design rt q2 a =
         (Inl (HTTPException 503 ''GenAI functionality is not available''), a)
     \<and> app_assess_risks rt q3 a =
         (Inl (HTTPException 503 ''GenAI functionality is not available''), a)
     \<and> app_generate_test_cases rt q4 a =
         (Inl (HTTPException 503 ''GenAI functionality is not available''), a)
     \<and> app_optimize_system rt q5 a =
         (Inl (HTTPException 503 ''GenAI functionality is not available''), a)
     \<and> status_code (fst (app_analyze_requirements rt q1 a)) = 503
     \<and> status_code (fst (app_generate_design rt q2 a)) = 503
     \<and> status_code (fst (app_assess_risks rt q3 a)) = 503
     \<and> status_code (fst (app_generate_test_cases rt q4 a)) = 503
     \<and> status_code (fst (app_optimize_system rt q5 a)) = 503)
 \<and> (GENAI_AVAILABLE a \<and> genai_engineer a = Some f \<longrightarrow>
       (\<forall>r s'. analyze_requirements rt (requirements_text q1)
                  \<lparr>self = f, trace = events a\<rparr> = (Inr r, s') \<longrightarrow>
          fst (app_analyze_requirements rt q1 a) = Inr r
        \<and> status_code (fst (app_analyze_requirements rt q1 a)) = 200)
     \<and> (\<forall>r s'. generate_design rt (specifications q2) (design_type q2)
                  \<lparr>self = f, trace = events a\<rparr> = (Inr r, s') \<longrightarrow>
          fst (app_generate_design rt q2 a) = Inr r
        \<and> status_code (fst (app_generate_design rt q2 a)) = 200)
     \<and> (\<forall>r s'. assess_risks rt (system_description q3)
                  \<lparr>self = f, trace = events a\<rparr> = (Inr r, s') \<longrightarrow>
          fst (app_assess_risks rt q3 a) = Inr r
        \<and> status_code (fst (app_assess_risks rt q3 a)) = 200)
     \<and> (\<forall>r s'. generate_test_cases rt (requirements q4) (test_type q4)
                  \<lparr>self = f, trace = events a\<rparr> = (Inr r, s') \<longrightarrow>
          fst (app_generate_test_cases rt q4 a) = Inr r
        \<and> status_code (fst (app_generate_test_cases rt q4 a)) = 200)
     \<and> (\<forall>r s'. optimize_system rt (system_config q5) (optimization_goal q5)
                  \<lparr>self = f, trace = events a\<rparr> = (Inr r, s') \<longrightarrow>
          fst (app_optimize_system rt q5 a) = Inr r
        \<and> status_code (fst (app_optimize_system rt q5 a)) = 200))"
proof (intro conjI impI allI)
  assume off: "\<not> GENAI_AVAILABLE a \<or> genai_engineer a = None"
  show "app_analyze_requirements rt q1 a =
         (Inl (HTTPException 503 ''GenAI functionality is not available''), a)"
    by (simp add: endpoints_unavailable(1) [OF off] unavailable_def)
  show "app_generate_design rt q2 a =
         (Inl (HTTPException 503 ''GenAI functionality is not available''), a)"
    by (simp add: endpoints_unavailable(2) [OF off] unavailable_def)
  show "app_assess_risks rt q3 a =
         (Inl (HTTPException 503 ''GenAI functionality is not available''), a)"
    by (simp add: endpoints_unavailable(3) [OF off] unavailable_def)
  show "app_generate_test_cases rt q4 a =
         (Inl (HTTPException 503 ''GenAI functionality is not available''), a)"
    by (simp add: endpoints_unavailable(4) [OF off] unavailable_def)
  show "app_optimize_system rt q5 a =
         (Inl (HTTPException 503 ''GenAI functionality is not available''), a)"
    by (simp add: endpoints_unavailable(5) [OF off] unavailable_def)
  show "status_code (fst (app_analyze_requirements rt q1 a)) = 503"
    by (simp add: endpoints_unavailable(1) [OF off] unavailable_status)
  show "status_code (fst (app_generate_design rt q2 a)) = 503"
    by (simp add: endpoints_unavailable(2) [OF off] unavailable_status)
  show "status_code (fst (app_assess_risks rt q3 a)) = 503"
    by (simp add: endpoints_unavailable(3) [OF off] unavailable_status)
  show "status_code (fst (app_generate_test_cases rt q4 a)) = 503"
    by (simp add: endpoints_unavailable(4) [OF off] unavailable_status)
  show "status_code (fst (app_optimize_system rt q5 a)) = 503"
    by (simp add: endpoints_unavailable(5) [OF off] unavailable_status)
next
  fix r :: "'a pydict" and s' :: "'a fstate"
  assume on: "GENAI_AVAILABLE a \<and> genai_engineer a = Some f"
  then have av: "GENAI_AVAILABLE a" and en: "genai_engineer a = Some f"
    by simp_all
  {
    assume "analyze_requirements rt (requirements_text q1)
              \<lparr>self = f, trace = events a\<rparr> = (Inr r, s')"
    then show "fst (app_analyze_requirements rt q1 a) = Inr r"
      and "status_code (fst (app_analyze_requirements rt q1 a)) = 200"
      by (simp_all add: endpoints_available(1) [OF av en] relay_returns)
  }
  {
    assume "generate_design rt (specifications q2) (design_type q2)
              \<lparr>self = f, trace = events a\<rparr> = (Inr r, s')"
    then show "fst (app_generate_design rt q2 a) = Inr r"
      and "status_code (fst (app_generate_design rt q2 a)) = 200"
      by (simp_all add: endpoints_available(2) [OF av en] relay_returns)
  }
  {
    assume "assess_risks rt (system_description q3)
              \<lparr>self = f, trace = events a\<rparr> = (Inr r, s')"
    then show "fst (app_assess_risks rt q3 a) = Inr r"
      and "status_code (fst (app_assess_risks rt q3 a)) = 200"
      by (simp_all add: endpoints_available(3) [OF av en] relay_returns)
  }
  {
    assume "generate_test_cases rt (requirements q4) (test_type q4)
              \<lparr>self = f, trace = events a\<rparr> = (Inr r, s')"
    then show "fst (app_generate_test_cases rt q4 a) = Inr r"
      and "status_code (fst (app_generate_test_cases rt q4 a)) = 200"
      by (simp_all add: endpoints_available(4) [OF av en] relay_returns)
  }
  {
    assume "optimize_system rt (system_config q5) (optimization_goal q5)
              \<lparr>self = f, trace = events a\<rparr> = (Inr r, s')"
    then show "fst (app_optimize_system rt q5 a) = Inr r"
      and "status_code (fst (app_optimize_system rt q5 a)) = 200"
      by (simp_all add: endpoints_available(5) [OF av en] relay_returns)
  }
qed

lemma test_analyze_requirements_disabled:
  "analyze_requirements rt ''x'' \<lparr>self = test_disabled_facade, trace = []\<rparr> =
     (Inr [(''status'', PStr ''disabled''),
           (''message'', PStr ''GenAI is not configured. Please set OPENAI_API_KEY.'')],
      \<lparr>self = test_disabled_facade, trace = [Enter AnalyzeRequirements]\<rparr>)"
  by (simp add: analyze_requirements_def Let_def is_enabled_def entered_def
      test_disabled_facade_def disabled_result_def)

lemma test_assess_risks_error_state:
  "assess_risks (test_runtime Map.empty (Inl (ProviderError ''Connection error.'')))
     ''x'' \<lparr>self = test_facade, trace = []\<rparr> =
     (Inr [(''status'', PStr ''error''),
           (''message'', PStr ''Error during risk assessment: Connection error.'')],
      snd (assess_risks (test_runtime Map.empty (Inl (ProviderError ''Connection error.'')))
             ''x'' \<lparr>self = test_facade, trace = []\<rparr>))"
  using test_assess_risks_error
  by (simp add: prod_eq_iff)

theorem task_endpoints_503_or_relay_witness:
  "app_optimize_system (test_runtime Map.empty (Inr (Response [Some ''ok''])))
       \<lparr>system_config = [(''workers'', PInt 4)], optimization_goal = Some ''performance''\<rparr>
       test_app_missing =
     (Inl (HTTPException 503 ''GenAI functionality is not available''), test_app_missing)
   \<and> status_code (fst (app_optimize_system (test_runtime Map.empty (Inr (Response [Some ''ok''])))
       \<lparr>system_config = [(''workers'', PInt 4)], optimization_goal = Some ''performance''\<rparr>
       test_app_missing)) = 503
   \<and> fst (app_analyze_requirements (test_runtime Map.empty (Inr (Response [Some ''ok''])))
       \<lparr>requirements_text = ''x''\<rparr> test_app_disabled) =
     Inr [(''status'', PStr ''disabled''),
          (''message'', PStr ''GenAI is not configured. Please set OPENAI_API_KEY.'')]
   \<and> status_code (fst (app_analyze_requirements
       (test_runtime Map.empty (Inr (Response [Some ''ok''])))
       \<lparr>requirements_text = ''x''\<rparr> test_app_disabled)) = 200
   \<and> fst (app_assess_risks (test_runtime Map.empty (Inl (ProviderError ''Connection error.'')))
       \<lparr>system_description = ''x''\<rparr> test_app_enabled) =
     Inr [(''status'', PStr ''error''),
          (''message'', PStr ''Error during risk assessment: Connection error.'')]
   \<and> status_code (fst (app_assess_risks
       (test_runtime Map.empty (Inl (ProviderError ''Connection error.'')))
       \<lparr>system_description = ''x''\<rparr> test_app_enabled)) = 200"
proof -
  let ?ok = "test_runtime Map.empty (Inr (Response [Some ''ok'']))"
  let ?down = "test_runtime Map.empty (Inl (ProviderError ''Connection error.''))"
  let ?q5 = "\<lparr>system_config = [(''workers'', PInt 4 :: string pyval)],
              optimization_goal = Some ''performance''\<rparr>"
  let ?q1 = "\<lparr>requirements_text = ''x''\<rparr>"
  let ?q3 = "\<lparr>system_description = ''x''\<rparr>"
  have missing: "\<not> GENAI_AVAILABLE test_app_missing \<or> genai_engineer test_app_missing = None"
    by (simp add: test_app_missing_def)
  have a: "app_optimize_system ?ok ?q5 test_app_missing =
      (Inl (HTTPException 503 ''GenAI functionality is not available''), test_app_missing)"
    and b: "status_code (fst (app_optimize_system ?ok ?q5 test_app_missing)) = 503"
    using task_endpoints_503_or_relay [where a = test_app_missing and rt = "?ok" and ?q5.0 = "?q5"]
      missing
    by blast+
  have dis: "GENAI_AVAILABLE test_app_disabled
      \<and> genai_engineer test_app_disabled = Some test_disabled_facade"
    by (simp add: test_app_disabled_def)
  have dis_run: "analyze_requirements ?ok (requirements_text ?q1)
      \<lparr>self = test_disabled_facade, trace = events test_app_disabled\<rparr> =
     (Inr [(''status'', PStr ''disabled''),
           (''message'', PStr ''GenAI is not configured. Please set OPENAI_API_KEY.'')],
      \<lparr>self = test_disabled_facade, trace = [Enter AnalyzeRequirements]\<rparr>)"
    by (simp add: test_app_disabled_def test_analyze_requirements_disabled)
  have c: "fst (app_analyze_requirements ?ok ?q1 test_app_disabled) =
     Inr [(''status'', PStr ''disabled''),
          (''message'', PStr ''GenAI is not configured. Please set OPENAI_API_KEY.'')]"
    and d: "status_code (fst (app_analyze_requirements ?ok ?q1 test_app_disabled)) = 200"
    using task_endpoints_503_or_relay
      [where a = test_app_disabled and rt = "?ok" and ?q1.0 = "?q1" and f = test_disabled_facade]
      dis dis_run
    by blast+
  have en: "GENAI_AVAILABLE test_app_enabled \<and> genai_engineer test_app_enabled = Some test_facade"
    by (simp add: test_app_enabled_def)
  have en_run: "assess_risks ?down (system_description ?q3)
      \<lparr>self = test_facade, trace = events test_app_enabled\<rparr> =
     (Inr [(''status'', PStr ''error''),
           (''message'', PStr ''Error during risk assessment: Connection error.'')],
      snd (assess_risks ?down ''x'' \<lparr>self = test_facade, trace = []\<rparr>))"
    using test_assess_risks_error_state by (simp add: test_app_enabled_def)
  have e: "fst (app_assess_risks ?down ?q3 test_app_enabled) =
     Inr [(''status'', PStr ''error''),
          (''message'', PStr ''Error during risk assessment: Connection error.'')]"
    and g: "status_code (fst (app_assess_risks ?down ?q3 test_app_enabled)) = 200"
    using task_endpoints_503_or_relay
      [where a = test_app_enabled and rt = "?down" and ?q3.0 = "?q3" and f = test_facade]
      en en_run
    by blast+
  show ?thesis
    using a b c d e g by simp
qed

end
